theory Spec2Isabelle
  imports Complex_Main "HOL-Library.Word" "HOL-Library.Monad_Syntax"
begin

unbundle bit_operations_syntax

section \<open>Data model of the link-layer controller\<close>

text \<open>
  The embedding follows \<^verbatim>\<open>link_layer_controller.cc\<close>, the class
  \<^verbatim>\<open>LinkLayerController\<close> of the test vendor library. Member fields keep
  their C++ names without the trailing underscore, which Isabelle keeps for its internal
  names. A member function takes the controller
  state as its last argument and returns the state it leaves behind, paired with its
  return value where it has one. A function that can abort the process (a failed
  \<^verbatim>\<open>ASSERT\<close>) or leave defined behaviour (an index past the end of a
  container, a division by zero) returns an \<open>option\<close>, and \<open>None\<close> is that
  outcome.

  Integers of a fixed width are words of that width. A device address is six octets, read
  as one 48-bit value whose most significant octet is the one printed first. The sixteen
  octets of a key are one 128-bit value, octet \<open>i\<close> at bits \<open>8 i\<close> to \<open>8 i + 7\<close>, and the
  eight octets of an LE random number are one 64-bit value in the same way; a
  value-initialised array is the word \<open>0\<close>.
\<close>

type_synonym Address = "48 word"
type_synonym AddressType = "8 word"
type_synonym Handle = "16 word"
type_synonym Key128 = "128 word"
type_synonym octets = "8 word list"

definition kEmpty :: Address where
  "kEmpty = 0"

definition PUBLIC_DEVICE_ADDRESS :: AddressType where
  "PUBLIC_DEVICE_ADDRESS = 0"

definition RANDOM_DEVICE_ADDRESS :: AddressType where
  "RANDOM_DEVICE_ADDRESS = 1"

definition PUBLIC_IDENTITY_ADDRESS :: AddressType where
  "PUBLIC_IDENTITY_ADDRESS = 2"

definition RANDOM_IDENTITY_ADDRESS :: AddressType where
  "RANDOM_IDENTITY_ADDRESS = 3"

text \<open>\<^verbatim>\<open>acl::kReservedHandle\<close>, the handle that names no connection.\<close>

definition kReservedHandle :: Handle where
  "kReservedHandle = 0xF00"

record AddressWithType =
  GetAddress :: Address
  GetAddressType :: AddressType

datatype ErrorCode =
    SUCCESS
  | UNKNOWN_HCI_COMMAND
  | UNKNOWN_CONNECTION
  | AUTHENTICATION_FAILURE
  | PIN_OR_KEY_MISSING
  | CONTROLLER_BUSY
  | COMMAND_DISALLOWED
  | INVALID_HCI_COMMAND_PARAMETERS
  | CONNECTION_TERMINATED_BY_LOCAL_HOST
  | INVALID_LMP_OR_LL_PARAMETERS
  | ENCRYPTION_MODE_NOT_ACCEPTABLE

datatype Phy = BR_EDR | LOW_ENERGY

datatype PacketBoundaryFlag =
    FIRST_NON_AUTOMATICALLY_FLUSHABLE
  | CONTINUING_FRAGMENT
  | FIRST_AUTOMATICALLY_FLUSHABLE
  | COMPLETE_PDU

datatype BroadcastFlag = POINT_TO_POINT | ACTIVE_SLAVE_BROADCAST

datatype Enable = DISABLED | ENABLED

text \<open>
  \<^verbatim>\<open>bluetooth::hci::EncryptionEnabled\<close> is an enumeration over one octet, and
  the controller casts octets to it; it is kept as the octet.
\<close>

type_synonym EncryptionEnabled = "8 word"

definition OFF :: EncryptionEnabled where
  "OFF = 0"

definition ON :: EncryptionEnabled where
  "ON = 1"

datatype KeyType = AUTHENTICATED_P256

datatype PairingType =
    AUTO_CONFIRMATION
  | CONFIRM_Y_N
  | DISPLAY_PIN
  | DISPLAY_AND_CONFIRM
  | INPUT_PIN
  | INVALID

subsection \<open>Packets\<close>

text \<open>
  The controller reads and builds packets through typed views and builders; their byte
  layout is outside this file. An HCI ACL packet is its header fields and its payload.
\<close>

record AclPacket =
  acl_handle :: Handle
  acl_packet_boundary_flag :: PacketBoundaryFlag
  acl_broadcast_flag :: BroadcastFlag
  acl_payload :: octets

text \<open>
  The link-layer packets that the functions below read or build: one constructor for each
  packet type, with the fields its builder takes after the two addresses.
\<close>

datatype LinkLayerBody =
    Acl AclPacket
  | Page "24 word" "8 word"
  | EncryptConnection Key128
  | IoCapabilityRequest "8 word" "8 word" "8 word"
  | IoCapabilityResponse "8 word" "8 word" "8 word"
  | IoCapabilityNegativeResponse ErrorCode
  | LeEncryptConnectionResponse "64 word" "16 word" Key128
  | ReadRemoteSupportedFeaturesResponse "64 word"
  | ReadRemoteVersionInformation
  | ReadRemoteVersionInformationResponse "8 word" "16 word" "16 word"

record LinkLayerPacket =
  GetSourceAddress :: Address
  GetDestinationAddress :: Address
  GetBody :: LinkLayerBody

text \<open>The HCI events that the functions below send to the host.\<close>

datatype Event =
    AuthenticationComplete ErrorCode Handle
  | EncryptionChange ErrorCode Handle EncryptionEnabled
  | EncryptionKeyRefreshComplete ErrorCode Handle
  | LinkKeyNotification Address Key128 KeyType
  | SimplePairingComplete ErrorCode Address
  | UserConfirmationRequest Address "32 word"
  | UserPasskeyRequest Address

text \<open>
  A callback handed to \<^verbatim>\<open>ScheduleTask\<close> is a C++ closure. Its description,
  the function it calls and the values it captured, is what a registered scheduler
  receives.
\<close>

datatype Task =
    Call_send_to_remote LinkLayerPacket Phy
  | Call_send_event Event
  | Call_AuthenticateRemoteStage1 Address PairingType
  | Call_AuthenticateRemoteStage2 Address
  | Call_HandleSetConnectionEncryption Address Handle "8 word"

subsection \<open>Device properties\<close>

text \<open>
  Modelled from the spec: the class \<^verbatim>\<open>DeviceProperties\<close> is declared outside
  the source at hand; the record holds the properties that the functions below read
  through its getters, with the widths the callers use them at. \<open>GetDeviceAddress\<close> is
  its \<^verbatim>\<open>GetAddress\<close>, the public device address.
\<close>

record DeviceProperties =
  GetDeviceAddress :: Address
  GetLeAddress :: Address
  GetAclDataPacketSize :: "16 word"
  GetAuthenticationEnable :: "8 word"
  GetClassOfDevice :: "24 word"
  GetSupportedFeatures :: "64 word"
  GetLeAdvertisingIntervalMin :: "16 word"
  GetLeAdvertisingIntervalMax :: "16 word"
  GetLeAdvertisingOwnAddressType :: "8 word"
  GetLeAdvertisingPeerAddress :: Address
  GetLeAdvertisingPeerAddressType :: "8 word"
  GetLeAdvertisingFilterPolicy :: "8 word"
  GetLeAdvertisementType :: "8 word"
  GetLeAdvertisement :: octets
  GetLeScanResponse :: octets

subsection \<open>Connection table\<close>

text \<open>
  Modelled from the spec: the class \<^verbatim>\<open>AclConnectionHandler\<close> is not part of
  the source at hand. A connection record owns its peer address, its own address, its phy
  and its encryption flag, and is found by its handle; a pending connection is keyed by the
  peer address and carries the authenticate-on-completion flag; the table has a capacity.
\<close>

record AclConnection =
  conn_address :: AddressWithType
  conn_own_address :: AddressWithType
  conn_phy :: Phy
  conn_encrypted :: bool

record AclConnectionHandler =
  acl_connections :: "(Handle \<times> AclConnection) list"
  pending_connections :: "(Address \<times> bool) list"
  pending_capacity :: nat

subsection \<open>Security manager\<close>

text \<open>
  Modelled from the spec: the class \<^verbatim>\<open>SecurityManager\<close> is not part of the
  source at hand. It stores at most one link key for each peer, the single authentication
  slot (peer address and handle), and the IO capabilities of the local and of the peer side
  once they are known.
\<close>

record SecurityManager =
  key_store :: "(Address \<times> Key128) list"
  authenticating :: bool
  authentication_address :: Address
  authentication_handle :: Handle
  local_io_capability :: "(8 word \<times> 8 word \<times> 8 word) option"
  peer_io_capability :: "(8 word \<times> 8 word \<times> 8 word) option"

subsection \<open>Advertiser\<close>

text \<open>
  Modelled from the spec: the class \<^verbatim>\<open>LeAdvertiser\<close> is not part of the
  source at hand. An advertising set owns its enabled flag, its own and peer addresses, the
  filter policy, the advertisement type, both payloads, the interval in milliseconds and,
  for extended advertising, a duration in milliseconds.
\<close>

record LeAdvertiser =
  adv_enabled :: bool
  adv_address :: AddressWithType
  adv_peer_address :: AddressWithType
  adv_filter_policy :: "8 word"
  adv_type :: "8 word"
  adv_advertisement :: octets
  adv_scan_response :: octets
  adv_interval :: nat
  adv_duration :: "nat option"

subsection \<open>Controller state\<close>

text \<open>
  The controller's own fields, then its channels. \<open>schedule_task\<close> tells whether a task
  scheduler is registered; \<open>scheduled\<close> lists, oldest first, the delays in milliseconds
  and callbacks handed to it. \<open>sent_events\<close>, \<open>sent_acl\<close> and \<open>sent_to_remote\<close> list,
  oldest first, what went through the registered \<^verbatim>\<open>send_event_\<close>,
  \<^verbatim>\<open>send_acl_\<close> and \<^verbatim>\<open>send_to_remote_\<close> callbacks.
\<close>

record LinkLayerController =
  properties :: DeviceProperties
  connections :: AclConnectionHandler
  security_manager :: SecurityManager
  advertisers :: "LeAdvertiser list"
  le_connect_list :: "(Address \<times> 8 word) list"
  le_resolving_list :: "(Address \<times> 8 word \<times> Key128 \<times> Key128) list"
  schedule_task :: bool
  scheduled :: "(nat \<times> Task) list"
  sent_events :: "Event list"
  sent_acl :: "AclPacket list"
  sent_to_remote :: "(LinkLayerPacket \<times> Phy) list"

section \<open>LE connect list and resolving list\<close>

text \<open>\<^verbatim>\<open>std::vector::erase(begin() + i)\<close> for an index inside the vector.\<close>

definition erase_at :: "nat \<Rightarrow> 'a list \<Rightarrow> 'a list" where
  "erase_at i xs = take i xs @ drop (Suc i) xs"

definition LeConnectListClear :: "LinkLayerController \<Rightarrow> LinkLayerController" where
  "LeConnectListClear s = s\<lparr>le_connect_list := []\<rparr>"

definition LeResolvingListClear :: "LinkLayerController \<Rightarrow> LinkLayerController" where
  "LeResolvingListClear s = s\<lparr>le_resolving_list := []\<rparr>"

text \<open>
  \<^verbatim>\<open>LeConnectListAddDevice\<close>: the range-for loop returns at the first entry equal
  to the new tuple; after a full pass the tuple is appended.
\<close>

fun connect_list_has :: "(Address \<times> 8 word) \<Rightarrow> (Address \<times> 8 word) list \<Rightarrow> bool" where
  "connect_list_has new_tuple [] = False"
| "connect_list_has new_tuple (dev # rest) =
     (if dev = new_tuple then True else connect_list_has new_tuple rest)"

definition LeConnectListAddDevice ::
  "Address \<Rightarrow> 8 word \<Rightarrow> LinkLayerController \<Rightarrow> LinkLayerController" where
  "LeConnectListAddDevice addr addr_type s =
     (let new_tuple = (addr, addr_type) in
      if connect_list_has new_tuple (le_connect_list s) then s
      else s\<lparr>le_connect_list := le_connect_list s @ [new_tuple]\<rparr>)"

text \<open>
  \<^verbatim>\<open>LeConnectListRemoveDevice\<close>: the index runs up to the current size; an
  erase shortens the vector and the index still advances.
\<close>

function remove_loop ::
  "nat \<Rightarrow> (Address \<times> 8 word) \<Rightarrow> (Address \<times> 8 word) list \<Rightarrow> (Address \<times> 8 word) list" where
  "remove_loop i erase_tuple l =
     (if i < length l
      then (if l ! i = erase_tuple
            then remove_loop (Suc i) erase_tuple (erase_at i l)
            else remove_loop (Suc i) erase_tuple l)
      else l)"
  by pat_completeness auto
termination
  by (relation "measure (\<lambda>(i, t, l). length l - i)") (auto simp: erase_at_def)

declare remove_loop.simps [simp del]

definition LeConnectListRemoveDevice ::
  "Address \<Rightarrow> 8 word \<Rightarrow> LinkLayerController \<Rightarrow> LinkLayerController" where
  "LeConnectListRemoveDevice addr addr_type s =
     s\<lparr>le_connect_list := remove_loop 0 (addr, addr_type) (le_connect_list s)\<rparr>"

text \<open>\<^verbatim>\<open>LeConnectListContainsDevice\<close>: an indexed scan for the sought tuple.\<close>

function contains_loop ::
  "nat \<Rightarrow> (Address \<times> 8 word) \<Rightarrow> (Address \<times> 8 word) list \<Rightarrow> bool" where
  "contains_loop i sought_tuple l =
     (if i < length l
      then (if l ! i = sought_tuple then True else contains_loop (Suc i) sought_tuple l)
      else False)"
  by pat_completeness auto
termination
  by (relation "measure (\<lambda>(i, t, l). length l - i)") auto

declare contains_loop.simps [simp del]

definition LeConnectListContainsDevice ::
  "Address \<Rightarrow> 8 word \<Rightarrow> LinkLayerController \<Rightarrow> bool" where
  "LeConnectListContainsDevice addr addr_type s =
     contains_loop 0 (addr, addr_type) (le_connect_list s)"

text \<open>
  \<^verbatim>\<open>LeResolvingListAddDevice\<close>: the loop runs over the indices of
  \<^verbatim>\<open>le_connect_list\<close> and, at the first connect-list entry with the address
  and type, assigns \<^verbatim>\<open>le_resolving_list[i]\<close> and returns; the assignment is
  outside the vector when the resolving list has no index \<open>i\<close>.
\<close>

function resolving_add_loop ::
  "nat \<Rightarrow> Address \<Rightarrow> 8 word \<Rightarrow> (Address \<times> 8 word \<times> Key128 \<times> Key128) \<Rightarrow>
   (Address \<times> 8 word) list \<Rightarrow> (Address \<times> 8 word \<times> Key128 \<times> Key128) list \<Rightarrow>
   (Address \<times> 8 word \<times> Key128 \<times> Key128) list option" where
  "resolving_add_loop i addr addr_type new_tuple cl rl =
     (if i < length cl
      then (let curr = cl ! i in
            if fst curr = addr \<and> snd curr = addr_type
            then (if i < length rl then Some (rl[i := new_tuple]) else None)
            else resolving_add_loop (Suc i) addr addr_type new_tuple cl rl)
      else Some (rl @ [new_tuple]))"
  by pat_completeness auto
termination
  by (relation "measure (\<lambda>(i, a, t, n, cl, rl). length cl - i)") auto

declare resolving_add_loop.simps [simp del]

definition LeResolvingListAddDevice ::
  "Address \<Rightarrow> 8 word \<Rightarrow> Key128 \<Rightarrow> Key128 \<Rightarrow> LinkLayerController \<Rightarrow>
   LinkLayerController option" where
  "LeResolvingListAddDevice addr addr_type peerIrk localIrk s =
     (case resolving_add_loop 0 addr addr_type (addr, addr_type, peerIrk, localIrk)
             (le_connect_list s) (le_resolving_list s) of
        None \<Rightarrow> None
      | Some rl \<Rightarrow> Some (s\<lparr>le_resolving_list := rl\<rparr>))"

text \<open>
  \<^verbatim>\<open>LeResolvingListRemoveDevice\<close>: the loop again runs over the indices of
  \<^verbatim>\<open>le_connect_list\<close> and compares the connect-list entry; on a match it erases
  index \<open>i\<close> of \<^verbatim>\<open>le_resolving_list\<close>, which is outside the vector when the
  resolving list has no index \<open>i\<close>.
\<close>

function resolving_remove_loop ::
  "nat \<Rightarrow> Address \<Rightarrow> 8 word \<Rightarrow> (Address \<times> 8 word) list \<Rightarrow>
   (Address \<times> 8 word \<times> Key128 \<times> Key128) list \<Rightarrow>
   (Address \<times> 8 word \<times> Key128 \<times> Key128) list option" where
  "resolving_remove_loop i addr addr_type cl rl =
     (if i < length cl
      then (let curr = cl ! i in
            if fst curr = addr \<and> snd curr = addr_type
            then (if i < length rl
                  then resolving_remove_loop (Suc i) addr addr_type cl (erase_at i rl)
                  else None)
            else resolving_remove_loop (Suc i) addr addr_type cl rl)
      else Some rl)"
  by pat_completeness auto
termination
  by (relation "measure (\<lambda>(i, a, t, cl, rl). length cl - i)") auto

declare resolving_remove_loop.simps [simp del]

definition LeResolvingListRemoveDevice ::
  "Address \<Rightarrow> 8 word \<Rightarrow> LinkLayerController \<Rightarrow> LinkLayerController option" where
  "LeResolvingListRemoveDevice addr addr_type s =
     (case resolving_remove_loop 0 addr addr_type (le_connect_list s) (le_resolving_list s) of
        None \<Rightarrow> None
      | Some rl \<Rightarrow> Some (s\<lparr>le_resolving_list := rl\<rparr>))"

text \<open>
  The connect lists that the controller can hold. A controller starts with an empty list,
  and \<^verbatim>\<open>LeConnectListClear\<close>, \<^verbatim>\<open>LeConnectListAddDevice\<close> and
  \<^verbatim>\<open>LeConnectListRemoveDevice\<close> are the only functions of the source that
  change \<^verbatim>\<open>le_connect_list_\<close>; any other step leaves the field as it is.
\<close>

inductive connect_list_reachable :: "LinkLayerController \<Rightarrow> bool" where
  initial: "le_connect_list s = [] \<Longrightarrow> connect_list_reachable s"
| clear: "connect_list_reachable s \<Longrightarrow> connect_list_reachable (LeConnectListClear s)"
| add: "connect_list_reachable s \<Longrightarrow> connect_list_reachable (LeConnectListAddDevice addr addr_type s)"
| remove:
    "connect_list_reachable s \<Longrightarrow> connect_list_reachable (LeConnectListRemoveDevice addr addr_type s)"
| other:
    "connect_list_reachable s \<Longrightarrow> le_connect_list s' = le_connect_list s \<Longrightarrow>
     connect_list_reachable s'"

section \<open>Channels and the task scheduler\<close>

definition send_event :: "Event \<Rightarrow> LinkLayerController \<Rightarrow> LinkLayerController" where
  "send_event packet s = s\<lparr>sent_events := sent_events s @ [packet]\<rparr>"


definition send_to_remote ::
  "LinkLayerPacket \<Rightarrow> Phy \<Rightarrow> LinkLayerController \<Rightarrow> LinkLayerController" where
  "send_to_remote packet phy s = s\<lparr>sent_to_remote := sent_to_remote s @ [(packet, phy)]\<rparr>"

text \<open>
  \<^verbatim>\<open>ScheduleTask\<close>: with a registered scheduler the callback is handed over with
  its delay; without one it runs at once. The closure is passed twice, as its description
  and as the state transformer it is. The task id it returns is dropped by every caller
  below and is left out.
\<close>

definition ScheduleTask ::
  "nat \<Rightarrow> Task \<Rightarrow> (LinkLayerController \<Rightarrow> LinkLayerController option) \<Rightarrow>
   LinkLayerController \<Rightarrow> LinkLayerController option" where
  "ScheduleTask delay_ms task callback s =
     (if schedule_task s
      then Some (s\<lparr>scheduled := scheduled s @ [(delay_ms, task)]\<rparr>)
      else callback s)"

definition SendLinkLayerPacket ::
  "LinkLayerPacket \<Rightarrow> LinkLayerController \<Rightarrow> LinkLayerController option" where
  "SendLinkLayerPacket packet s =
     ScheduleTask 50 (Call_send_to_remote packet BR_EDR)
       (\<lambda>s'. Some (send_to_remote packet BR_EDR s')) s"

section \<open>Operations of the collaborators\<close>

subsection \<open>Connection table\<close>

text \<open>
  Modelled from the spec: \<^verbatim>\<open>AclConnectionHandler::HasHandle\<close>, true for the
  handle of a connection record.
\<close>

definition HasHandle :: "Handle \<Rightarrow> AclConnectionHandler \<Rightarrow> bool" where
  "HasHandle handle t = (map_of (acl_connections t) handle \<noteq> None)"

text \<open>
  Modelled from the spec: \<^verbatim>\<open>AclConnectionHandler::GetAddress\<close>, the peer
  address of the record with the handle; the callers ask only for a handle they have
  checked, and no value is given for any other.
\<close>

definition GetAddressOf :: "Handle \<Rightarrow> AclConnectionHandler \<Rightarrow> AddressWithType option" where
  "GetAddressOf handle t = map_option conn_address (map_of (acl_connections t) handle)"

text \<open>
  Modelled from the spec: \<^verbatim>\<open>AclConnectionHandler::GetHandleOnlyAddress\<close>, the
  handle of the first record whose peer has the address, and the reserved handle when
  there is none.
\<close>

definition GetHandleOnlyAddress :: "Address \<Rightarrow> AclConnectionHandler \<Rightarrow> Handle" where
  "GetHandleOnlyAddress addr t =
     (case find (\<lambda>e. GetAddress (conn_address (snd e)) = addr) (acl_connections t) of
        None \<Rightarrow> kReservedHandle
      | Some e \<Rightarrow> fst e)"

text \<open>
  Modelled from the spec: \<^verbatim>\<open>AclConnectionHandler::IsEncrypted\<close> and
  \<^verbatim>\<open>AclConnectionHandler::Encrypt\<close>, reading and setting the encryption flag
  of the record with the handle.
\<close>

definition IsEncrypted :: "Handle \<Rightarrow> AclConnectionHandler \<Rightarrow> bool" where
  "IsEncrypted handle t =
     (case map_of (acl_connections t) handle of
        None \<Rightarrow> False
      | Some c \<Rightarrow> conn_encrypted c)"

definition Encrypt :: "Handle \<Rightarrow> AclConnectionHandler \<Rightarrow> AclConnectionHandler" where
  "Encrypt handle t =
     t\<lparr>acl_connections :=
         map (\<lambda>e. if fst e = handle then (fst e, (snd e)\<lparr>conn_encrypted := True\<rparr>) else e)
           (acl_connections t)\<rparr>"

text \<open>
  Modelled from the spec: \<^verbatim>\<open>AclConnectionHandler::HasPendingConnection\<close> and
  \<^verbatim>\<open>AclConnectionHandler::CreatePendingConnection\<close>; the latter returns false,
  and records nothing, when a pending record for the address exists already or when the
  table is at capacity.
\<close>

definition HasPendingConnection :: "Address \<Rightarrow> AclConnectionHandler \<Rightarrow> bool" where
  "HasPendingConnection addr t = (map_of (pending_connections t) addr \<noteq> None)"

definition CreatePendingConnection ::
  "Address \<Rightarrow> bool \<Rightarrow> AclConnectionHandler \<Rightarrow> bool \<times> AclConnectionHandler" where
  "CreatePendingConnection addr authenticate_on_connect t =
     (if HasPendingConnection addr t \<or> pending_capacity t \<le> length (pending_connections t)
      then (False, t)
      else (True, t\<lparr>pending_connections :=
                       pending_connections t @ [(addr, authenticate_on_connect)]\<rparr>))"

subsection \<open>Security manager\<close>

text \<open>
  Modelled from the spec: \<^verbatim>\<open>SecurityManager::WriteKey\<close>,
  \<^verbatim>\<open>ReadKey\<close> (the number of keys stored for the peer) and
  \<^verbatim>\<open>GetKey\<close>.
\<close>

definition WriteKey :: "Address \<Rightarrow> Key128 \<Rightarrow> SecurityManager \<Rightarrow> SecurityManager" where
  "WriteKey peer key m =
     m\<lparr>key_store := (peer, key) # filter (\<lambda>e. fst e \<noteq> peer) (key_store m)\<rparr>"

definition ReadKey :: "Address \<Rightarrow> SecurityManager \<Rightarrow> 16 word" where
  "ReadKey peer m = (case map_of (key_store m) peer of None \<Rightarrow> 0 | Some k \<Rightarrow> 1)"

definition GetKey :: "Address \<Rightarrow> SecurityManager \<Rightarrow> Key128 option" where
  "GetKey peer m = map_of (key_store m) peer"

text \<open>
  Modelled from the spec: \<^verbatim>\<open>SecurityManager::AuthenticationRequest\<close> sets the
  single authentication slot; \<^verbatim>\<open>AuthenticationRequestFinished\<close> clears the
  derived pairing state and leaves the slot's address and handle for stage 2 to read;
  \<^verbatim>\<open>GetAuthenticationAddress\<close> and \<^verbatim>\<open>GetAuthenticationHandle\<close>
  read the slot.
\<close>

definition AuthenticationRequest ::
  "Address \<Rightarrow> Handle \<Rightarrow> SecurityManager \<Rightarrow> SecurityManager" where
  "AuthenticationRequest addr handle m =
     m\<lparr>authenticating := True, authentication_address := addr,
       authentication_handle := handle\<rparr>"

definition AuthenticationRequestFinished :: "SecurityManager \<Rightarrow> SecurityManager" where
  "AuthenticationRequestFinished m = m\<lparr>authenticating := False\<rparr>"

definition GetAuthenticationAddress :: "SecurityManager \<Rightarrow> Address" where
  "GetAuthenticationAddress m = authentication_address m"

definition GetAuthenticationHandle :: "SecurityManager \<Rightarrow> Handle" where
  "GetAuthenticationHandle m = authentication_handle m"

text \<open>
  Modelled from the spec: \<^verbatim>\<open>SecurityManager::SetLocalIoCapability\<close> and
  \<^verbatim>\<open>InvalidateIoCapabilities\<close> record and forget IO capabilities;
  \<^verbatim>\<open>GetSimplePairingType\<close> is \<open>INVALID\<close> until both sides are known and is
  then read from the simple-pairing selection table, which the spec does not spell out and
  which is the parameter \<open>selection_table\<close>.
\<close>

definition SetLocalIoCapability ::
  "Address \<Rightarrow> 8 word \<Rightarrow> 8 word \<Rightarrow> 8 word \<Rightarrow> SecurityManager \<Rightarrow> SecurityManager" where
  "SetLocalIoCapability peer io_capability oob_present_flag authentication_requirements m =
     m\<lparr>local_io_capability :=
         Some (io_capability, oob_present_flag, authentication_requirements)\<rparr>"

definition InvalidateIoCapabilities :: "SecurityManager \<Rightarrow> SecurityManager" where
  "InvalidateIoCapabilities m = m\<lparr>local_io_capability := None, peer_io_capability := None\<rparr>"

definition GetSimplePairingType ::
  "((8 word \<times> 8 word \<times> 8 word) \<Rightarrow> (8 word \<times> 8 word \<times> 8 word) \<Rightarrow> PairingType) \<Rightarrow>
   SecurityManager \<Rightarrow> PairingType" where
  "GetSimplePairingType selection_table m =
     (case local_io_capability m of
        None \<Rightarrow> INVALID
      | Some l \<Rightarrow>
          (case peer_io_capability m of
             None \<Rightarrow> INVALID
           | Some p \<Rightarrow> selection_table l p))"

subsection \<open>Advertiser\<close>

text \<open>
  Modelled from the spec: \<^verbatim>\<open>LeAdvertiser::Initialize\<close>,
  \<^verbatim>\<open>Enable\<close>, \<^verbatim>\<open>EnableExtended\<close>, \<^verbatim>\<open>Disable\<close> and
  \<^verbatim>\<open>IsEnabled\<close>. The time of the last advertisement, which
  \<^verbatim>\<open>Enable\<close> takes from the clock, is left out.
\<close>

definition Initialize ::
  "AddressWithType \<Rightarrow> AddressWithType \<Rightarrow> 8 word \<Rightarrow> 8 word \<Rightarrow> octets \<Rightarrow> octets \<Rightarrow> nat \<Rightarrow>
   LeAdvertiser \<Rightarrow> LeAdvertiser" where
  "Initialize address peer_address filter_policy type advertisement scan_response interval a =
     a\<lparr>adv_address := address, adv_peer_address := peer_address,
       adv_filter_policy := filter_policy, adv_type := type,
       adv_advertisement := advertisement, adv_scan_response := scan_response,
       adv_interval := interval\<rparr>"

definition Enable_adv :: "LeAdvertiser \<Rightarrow> LeAdvertiser" where
  "Enable_adv a = a\<lparr>adv_enabled := True\<rparr>"

definition EnableExtended :: "nat \<Rightarrow> LeAdvertiser \<Rightarrow> LeAdvertiser" where
  "EnableExtended duration a = a\<lparr>adv_enabled := True, adv_duration := Some duration\<rparr>"

definition Disable :: "LeAdvertiser \<Rightarrow> LeAdvertiser" where
  "Disable a = a\<lparr>adv_enabled := False\<rparr>"

definition IsEnabled :: "LeAdvertiser \<Rightarrow> bool" where
  "IsEnabled a = adv_enabled a"

text \<open>
  \<^verbatim>\<open>advertisers_[i].f(...)\<close>: the member call on element \<open>i\<close> of the array of
  advertisers; an index past its end is outside defined behaviour.
\<close>

definition on_advertiser ::
  "nat \<Rightarrow> (LeAdvertiser \<Rightarrow> LeAdvertiser) \<Rightarrow> LinkLayerController \<Rightarrow>
   LinkLayerController option" where
  "on_advertiser i f s =
     (if i < length (advertisers s)
      then Some (s\<lparr>advertisers := (advertisers s)[i := f (advertisers s ! i)]\<rparr>)
      else None)"

section \<open>Procedure handlers and commands\<close>

subsection \<open>Remote version request\<close>

text \<open>
  \<^verbatim>\<open>IncomingReadRemoteVersion\<close>: the builder it calls is
  \<^verbatim>\<open>ReadRemoteSupportedFeaturesResponseBuilder\<close>, from the packet's
  destination to its source, with the supported features of the device.
\<close>

definition IncomingReadRemoteVersion ::
  "LinkLayerPacket \<Rightarrow> LinkLayerController \<Rightarrow> LinkLayerController option" where
  "IncomingReadRemoteVersion packet s =
     SendLinkLayerPacket
       \<lparr>GetSourceAddress = GetDestinationAddress packet,
        GetDestinationAddress = GetSourceAddress packet,
        GetBody = ReadRemoteSupportedFeaturesResponse (GetSupportedFeatures (properties s))\<rparr> s"

subsection \<open>ACL forwarding\<close>




subsection \<open>LE encryption response\<close>

text \<open>
  \<^verbatim>\<open>IncomingLeEncryptConnectionResponse\<close>: a packet from an address without a
  connection is dropped before its view is made; then the view must be valid.
\<close>

definition IncomingLeEncryptConnectionResponse ::
  "LinkLayerPacket \<Rightarrow> LinkLayerController \<Rightarrow> LinkLayerController option" where
  "IncomingLeEncryptConnectionResponse incoming s =
     (let handle = GetHandleOnlyAddress (GetSourceAddress incoming) (connections s) in
      if handle = kReservedHandle then Some s
      else (case GetBody incoming of
              LeEncryptConnectionResponse rand ediv ltk \<Rightarrow>
                (let status = (if ltk = 0 then AUTHENTICATION_FAILURE else SUCCESS) in
                 if IsEncrypted handle (connections s)
                 then Some (send_event (EncryptionKeyRefreshComplete status handle) s)
                 else Some (send_event (EncryptionChange status handle ON)
                              (s\<lparr>connections := Encrypt handle (connections s)\<rparr>)))
            | _ \<Rightarrow> None))"

subsection \<open>Simple pairing\<close>

text \<open>
  \<^verbatim>\<open>AuthenticateRemoteStage1\<close> and \<^verbatim>\<open>AuthenticateRemoteStage2\<close>
  assert that the peer is the authentication address; the first is fatal on a pairing
  type outside the five it handles.
\<close>

definition AuthenticateRemoteStage1 ::
  "Address \<Rightarrow> PairingType \<Rightarrow> LinkLayerController \<Rightarrow> LinkLayerController option" where
  "AuthenticateRemoteStage1 peer pairing_type s =
     (if GetAuthenticationAddress (security_manager s) = peer
      then (case pairing_type of
              AUTO_CONFIRMATION \<Rightarrow> Some (send_event (UserConfirmationRequest peer 123456) s)
            | CONFIRM_Y_N \<Rightarrow> Some (send_event (UserConfirmationRequest peer 123456) s)
            | DISPLAY_PIN \<Rightarrow> Some (send_event (UserConfirmationRequest peer 123456) s)
            | DISPLAY_AND_CONFIRM \<Rightarrow> Some (send_event (UserConfirmationRequest peer 123456) s)
            | INPUT_PIN \<Rightarrow> Some (send_event (UserPasskeyRequest peer) s)
            | INVALID \<Rightarrow> None)
      else None)"

definition AuthenticateRemoteStage2 ::
  "Address \<Rightarrow> LinkLayerController \<Rightarrow> LinkLayerController option" where
  "AuthenticateRemoteStage2 peer s =
     (let handle = GetAuthenticationHandle (security_manager s) in
      if GetAuthenticationAddress (security_manager s) = peer
      then Some (send_event (AuthenticationComplete SUCCESS handle) s)
      else None)"

definition LinkKeyRequestReply ::
  "Address \<Rightarrow> Key128 \<Rightarrow> LinkLayerController \<Rightarrow> (ErrorCode \<times> LinkLayerController) option" where
  "LinkKeyRequestReply peer key s =
     do {
       let s1 = s\<lparr>security_manager := WriteKey peer key (security_manager s)\<rparr>;
       let s2 = s1\<lparr>security_manager := AuthenticationRequestFinished (security_manager s1)\<rparr>;
       s3 \<leftarrow> ScheduleTask 5 (Call_AuthenticateRemoteStage2 peer) (AuthenticateRemoteStage2 peer) s2;
       Some (SUCCESS, s3)
     }"

definition IoCapabilityRequestReply ::
  "((8 word \<times> 8 word \<times> 8 word) \<Rightarrow> (8 word \<times> 8 word \<times> 8 word) \<Rightarrow> PairingType) \<Rightarrow>
   Address \<Rightarrow> 8 word \<Rightarrow> 8 word \<Rightarrow> 8 word \<Rightarrow> LinkLayerController \<Rightarrow>
   (ErrorCode \<times> LinkLayerController) option" where
  "IoCapabilityRequestReply selection_table peer io_capability oob_data_present_flag
       authentication_requirements s =
     do {
       let s1 = s\<lparr>security_manager :=
                    SetLocalIoCapability peer io_capability oob_data_present_flag
                      authentication_requirements (security_manager s)\<rparr>;
       let pairing_type = GetSimplePairingType selection_table (security_manager s1);
       s3 \<leftarrow> (if pairing_type \<noteq> INVALID
               then do {
                 s2 \<leftarrow> ScheduleTask 5 (Call_AuthenticateRemoteStage1 peer pairing_type)
                         (AuthenticateRemoteStage1 peer pairing_type) s1;
                 SendLinkLayerPacket
                   \<lparr>GetSourceAddress = GetDeviceAddress (properties s2),
                    GetDestinationAddress = peer,
                    GetBody = IoCapabilityResponse io_capability oob_data_present_flag
                                authentication_requirements\<rparr> s2
               }
               else SendLinkLayerPacket
                      \<lparr>GetSourceAddress = GetDeviceAddress (properties s1),
                       GetDestinationAddress = peer,
                       GetBody = IoCapabilityRequest io_capability oob_data_present_flag
                                   authentication_requirements\<rparr> s1);
       Some (SUCCESS, s3)
     }"

definition IoCapabilityRequestNegativeReply ::
  "Address \<Rightarrow> ErrorCode \<Rightarrow> LinkLayerController \<Rightarrow> (ErrorCode \<times> LinkLayerController) option" where
  "IoCapabilityRequestNegativeReply peer reason s =
     (if GetAuthenticationAddress (security_manager s) \<noteq> peer
      then Some (AUTHENTICATION_FAILURE, s)
      else do {
        let s1 = s\<lparr>security_manager := InvalidateIoCapabilities (security_manager s)\<rparr>;
        s2 \<leftarrow> SendLinkLayerPacket
                \<lparr>GetSourceAddress = GetDeviceAddress (properties s1),
                 GetDestinationAddress = peer,
                 GetBody = IoCapabilityNegativeResponse reason\<rparr> s1;
        Some (SUCCESS, s2)
      })"

text \<open>The placeholder key of \<^verbatim>\<open>UserConfirmationRequestReply\<close>, octets 1 to 16.\<close>

definition key_vec :: Key128 where
  "key_vec = 0x100F0E0D0C0B0A090807060504030201"

definition UserConfirmationRequestReply ::
  "Address \<Rightarrow> LinkLayerController \<Rightarrow> (ErrorCode \<times> LinkLayerController) option" where
  "UserConfirmationRequestReply peer s =
     (if GetAuthenticationAddress (security_manager s) \<noteq> peer
      then Some (AUTHENTICATION_FAILURE, s)
      else do {
        let s1 = s\<lparr>security_manager := WriteKey peer key_vec (security_manager s)\<rparr>;
        let s2 = s1\<lparr>security_manager := AuthenticationRequestFinished (security_manager s1)\<rparr>;
        s3 \<leftarrow> ScheduleTask 5 (Call_send_event (SimplePairingComplete SUCCESS peer))
                (\<lambda>s'. Some (send_event (SimplePairingComplete SUCCESS peer) s')) s2;
        s4 \<leftarrow> ScheduleTask 5
                (Call_send_event (LinkKeyNotification peer key_vec AUTHENTICATED_P256))
                (\<lambda>s'. Some (send_event (LinkKeyNotification peer key_vec AUTHENTICATED_P256) s'))
                s3;
        s5 \<leftarrow> ScheduleTask 15 (Call_AuthenticateRemoteStage2 peer)
                (AuthenticateRemoteStage2 peer) s4;
        Some (SUCCESS, s5)
      })"

definition UserConfirmationRequestNegativeReply ::
  "Address \<Rightarrow> LinkLayerController \<Rightarrow> (ErrorCode \<times> LinkLayerController) option" where
  "UserConfirmationRequestNegativeReply peer s =
     (if GetAuthenticationAddress (security_manager s) \<noteq> peer
      then Some (AUTHENTICATION_FAILURE, s)
      else do {
        s1 \<leftarrow> ScheduleTask 5
                (Call_send_event (SimplePairingComplete AUTHENTICATION_FAILURE peer))
                (\<lambda>s'. Some (send_event (SimplePairingComplete AUTHENTICATION_FAILURE peer) s'))
                s;
        Some (SUCCESS, s1)
      })"

definition UserPasskeyRequestReply ::
  "Address \<Rightarrow> 32 word \<Rightarrow> LinkLayerController \<Rightarrow> (ErrorCode \<times> LinkLayerController) option" where
  "UserPasskeyRequestReply peer numeric_value s =
     (if GetAuthenticationAddress (security_manager s) \<noteq> peer
      then Some (AUTHENTICATION_FAILURE, s)
      else Some (SUCCESS, s))"

definition UserPasskeyRequestNegativeReply ::
  "Address \<Rightarrow> LinkLayerController \<Rightarrow> (ErrorCode \<times> LinkLayerController) option" where
  "UserPasskeyRequestNegativeReply peer s =
     (if GetAuthenticationAddress (security_manager s) \<noteq> peer
      then Some (AUTHENTICATION_FAILURE, s)
      else Some (SUCCESS, s))"

text \<open>
  \<^verbatim>\<open>RemoteOobDataRequestReply\<close> reads \<^verbatim>\<open>c[0]\<close> and
  \<^verbatim>\<open>r[0]\<close> for its log line, past the end of an empty vector.
\<close>

definition RemoteOobDataRequestReply ::
  "Address \<Rightarrow> octets \<Rightarrow> octets \<Rightarrow> LinkLayerController \<Rightarrow>
   (ErrorCode \<times> LinkLayerController) option" where
  "RemoteOobDataRequestReply peer c r s =
     (if GetAuthenticationAddress (security_manager s) \<noteq> peer
      then Some (AUTHENTICATION_FAILURE, s)
      else if c = [] \<or> r = [] then None
      else Some (SUCCESS, s))"

definition RemoteOobDataRequestNegativeReply ::
  "Address \<Rightarrow> LinkLayerController \<Rightarrow> (ErrorCode \<times> LinkLayerController) option" where
  "RemoteOobDataRequestNegativeReply peer s =
     (if GetAuthenticationAddress (security_manager s) \<noteq> peer
      then Some (AUTHENTICATION_FAILURE, s)
      else Some (SUCCESS, s))"

subsection \<open>BR/EDR encryption and connection\<close>

definition HandleSetConnectionEncryption ::
  "Address \<Rightarrow> Handle \<Rightarrow> 8 word \<Rightarrow> LinkLayerController \<Rightarrow> LinkLayerController option" where
  "HandleSetConnectionEncryption peer handle encryption_enable s =
     (if IsEncrypted handle (connections s) \<and> encryption_enable \<noteq> 0
      then Some (send_event (EncryptionChange SUCCESS handle encryption_enable) s)
      else if ReadKey peer (security_manager s) = 0 then Some s
      else (case GetKey peer (security_manager s) of
              None \<Rightarrow> None
            | Some key \<Rightarrow>
                SendLinkLayerPacket
                  \<lparr>GetSourceAddress = GetDeviceAddress (properties s),
                   GetDestinationAddress = peer,
                   GetBody = EncryptConnection key\<rparr> s))"

definition SetConnectionEncryption ::
  "Handle \<Rightarrow> 8 word \<Rightarrow> LinkLayerController \<Rightarrow> (ErrorCode \<times> LinkLayerController) option" where
  "SetConnectionEncryption handle encryption_enable s =
     (if \<not> HasHandle handle (connections s) then Some (UNKNOWN_CONNECTION, s)
      else if IsEncrypted handle (connections s) \<and> encryption_enable = 0
      then Some (ENCRYPTION_MODE_NOT_ACCEPTABLE, s)
      else (case GetAddressOf handle (connections s) of
              None \<Rightarrow> None
            | Some remote \<Rightarrow>
                (if ReadKey (GetAddress remote) (security_manager s) = 0
                 then Some (PIN_OR_KEY_MISSING, s)
                 else do {
                   s1 \<leftarrow> ScheduleTask 5
                           (Call_HandleSetConnectionEncryption (GetAddress remote) handle
                              encryption_enable)
                           (HandleSetConnectionEncryption (GetAddress remote) handle
                              encryption_enable) s;
                   Some (SUCCESS, s1)
                 })))"

text \<open>
  \<^verbatim>\<open>CreateConnection\<close>; its second to fourth parameters are unnamed and
  unused.
\<close>

definition CreateConnection ::
  "Address \<Rightarrow> 16 word \<Rightarrow> 8 word \<Rightarrow> 16 word \<Rightarrow> 8 word \<Rightarrow> LinkLayerController \<Rightarrow>
   (ErrorCode \<times> LinkLayerController) option" where
  "CreateConnection addr u1 u2 u3 allow_role_switch s =
     (case CreatePendingConnection addr (GetAuthenticationEnable (properties s) = 1)
             (connections s) of
        (created, t) \<Rightarrow>
          (let s1 = s\<lparr>connections := t\<rparr> in
           if \<not> created then Some (CONTROLLER_BUSY, s1)
           else do {
             s2 \<leftarrow> SendLinkLayerPacket
                     \<lparr>GetSourceAddress = GetDeviceAddress (properties s1),
                      GetDestinationAddress = addr,
                      GetBody = Page (GetClassOfDevice (properties s1)) allow_role_switch\<rparr> s1;
             Some (SUCCESS, s2)
           }))"

subsection \<open>LE advertising\<close>

text \<open>
  Modelled from the spec: \<^verbatim>\<open>Address::ToString\<close> is not part of the source
  at hand; it prints the six octets in lower-case hexadecimal with colons between them,
  the form in which the spec writes addresses.
\<close>

definition hex_digit :: "nat \<Rightarrow> char" where
  "hex_digit n = ''0123456789abcdef'' ! (n mod 16)"

definition octet_text :: "nat \<Rightarrow> string" where
  "octet_text b = [hex_digit (b div 16), hex_digit b]"

definition ToString :: "Address \<Rightarrow> string" where
  "ToString a =
     (let n = unat a in
      octet_text (n div 2 ^ 40 mod 256) @ '':'' @ octet_text (n div 2 ^ 32 mod 256) @ '':'' @
      octet_text (n div 2 ^ 24 mod 256) @ '':'' @ octet_text (n div 2 ^ 16 mod 256) @ '':'' @
      octet_text (n div 2 ^ 8 mod 256) @ '':'' @ octet_text (n mod 256))"

text \<open>
  \<^verbatim>\<open>SetLeAdvertisingEnable\<close>. The interval is computed in
  \<^verbatim>\<open>double\<close>: the sum of two 16-bit values times \<open>0.625\<close> and halved is a
  multiple of \<open>1/16\<close> below \<open>2 ^ 16\<close>, which a \<^verbatim>\<open>double\<close> holds exactly, so
  the real number is the value computed; the cast to an unsigned integer drops its
  fraction.
\<close>

definition SetLeAdvertisingEnable ::
  "8 word \<Rightarrow> LinkLayerController \<Rightarrow> (ErrorCode \<times> LinkLayerController) option" where
  "SetLeAdvertisingEnable le_advertising_enable s =
     (if le_advertising_enable = 0
      then do { s1 \<leftarrow> on_advertiser 0 Disable s; Some (SUCCESS, s1) }
      else
        (let p = properties s;
             interval_ms =
               real (unat (GetLeAdvertisingIntervalMax p) + unat (GetLeAdvertisingIntervalMin p))
                 * 0.625 / 2;
             random = (GetLeAdvertisingOwnAddressType p = RANDOM_DEVICE_ADDRESS
                       \<or> GetLeAdvertisingOwnAddressType p = RANDOM_IDENTITY_ADDRESS)
         in if random
               \<and> (ToString (GetLeAddress p) = ''bb:bb:bb:ba:d0:1e'' \<or> GetLeAddress p = kEmpty)
            then Some (INVALID_HCI_COMMAND_PARAMETERS, s)
            else
              (let own_address = (if random then GetLeAddress p else GetDeviceAddress p);
                   own_address_with_type =
                     \<lparr>GetAddress = own_address,
                      GetAddressType = GetLeAdvertisingOwnAddressType p\<rparr>;
                   interval = nat \<lfloor>interval_ms\<rfloor>
               in if interval < 20 then Some (INVALID_HCI_COMMAND_PARAMETERS, s)
                  else do {
                    s1 \<leftarrow> on_advertiser 0
                            (Initialize own_address_with_type
                               \<lparr>GetAddress = GetLeAdvertisingPeerAddress p,
                                GetAddressType = GetLeAdvertisingPeerAddressType p\<rparr>
                               (GetLeAdvertisingFilterPolicy p) (GetLeAdvertisementType p)
                               (GetLeAdvertisement p) (GetLeScanResponse p) interval) s;
                    s2 \<leftarrow> on_advertiser 0 Enable_adv s1;
                    Some (SUCCESS, s2)
                  })))"

text \<open>
  \<^verbatim>\<open>SetLeExtendedAdvertisingEnable\<close>: a first loop over the requested sets
  returns at the first advertising handle greater than the number of advertisers; a
  second loop enables or disables the advertiser each set names.
\<close>

record EnabledSet =
  advertising_handle :: "8 word"
  duration :: "16 word"
  max_extended_advertising_events :: "8 word"

fun handles_checked :: "EnabledSet list \<Rightarrow> nat \<Rightarrow> bool" where
  "handles_checked [] advertisers_size = True"
| "handles_checked (es # rest) advertisers_size =
     (if unat (advertising_handle es) > advertisers_size then False
      else handles_checked rest advertisers_size)"

fun enable_loop ::
  "Enable \<Rightarrow> EnabledSet list \<Rightarrow> LinkLayerController \<Rightarrow> LinkLayerController option" where
  "enable_loop enable [] s = Some s"
| "enable_loop enable (es # rest) s =
     (case on_advertiser (unat (advertising_handle es))
             (if enable = ENABLED then EnableExtended (10 * unat (duration es)) else Disable) s of
        None \<Rightarrow> None
      | Some s1 \<Rightarrow> enable_loop enable rest s1)"

definition SetLeExtendedAdvertisingEnable ::
  "Enable \<Rightarrow> EnabledSet list \<Rightarrow> LinkLayerController \<Rightarrow>
   (ErrorCode \<times> LinkLayerController) option" where
  "SetLeExtendedAdvertisingEnable enable enabled_sets s =
     (if \<not> handles_checked enabled_sets (length (advertisers s))
      then Some (INVALID_HCI_COMMAND_PARAMETERS, s)
      else do { s1 \<leftarrow> enable_loop enable enabled_sets s; Some (SUCCESS, s1) })"

section \<open>A controller to run the functions on\<close>

text \<open>
  A controller with the public address \<open>01:02:03:04:05:06\<close>, an LE address still at its
  unset default, one unencrypted BR/EDR connection with handle 1 to the peer
  \<open>0a:0b:0c:0d:0e:0f\<close>, an authentication of that peer under way, three advertising sets
  and a registered task scheduler.
\<close>

definition peer_B :: Address where
  "peer_B = 0x0A0B0C0D0E0F"

definition peer_C :: Address where
  "peer_C = 0x0C0C0C0C0C0C"

definition blank_advertiser :: LeAdvertiser where
  "blank_advertiser =
     \<lparr>adv_enabled = False,
      adv_address = \<lparr>GetAddress = 0, GetAddressType = 0\<rparr>,
      adv_peer_address = \<lparr>GetAddress = 0, GetAddressType = 0\<rparr>,
      adv_filter_policy = 0, adv_type = 0, adv_advertisement = [], adv_scan_response = [],
      adv_interval = 0, adv_duration = None\<rparr>"

definition example_properties :: DeviceProperties where
  "example_properties =
     \<lparr>GetDeviceAddress = 0x010203040506, GetLeAddress = 0xBBBBBBBAD01E,
      GetAclDataPacketSize = 4, GetAuthenticationEnable = 1, GetClassOfDevice = 0x1F00,
      GetSupportedFeatures = 0x875B, GetLeAdvertisingIntervalMin = 0x0800,
      GetLeAdvertisingIntervalMax = 0x0800, GetLeAdvertisingOwnAddressType = 0,
      GetLeAdvertisingPeerAddress = 0, GetLeAdvertisingPeerAddressType = 0,
      GetLeAdvertisingFilterPolicy = 0, GetLeAdvertisementType = 0,
      GetLeAdvertisement = [2, 1, 6], GetLeScanResponse = []\<rparr>"

definition example_controller :: LinkLayerController where
  "example_controller =
     \<lparr>properties = example_properties,
      connections =
        \<lparr>acl_connections =
           [(1, \<lparr>conn_address = \<lparr>GetAddress = peer_B, GetAddressType = 0\<rparr>,
                 conn_own_address = \<lparr>GetAddress = 0x010203040506, GetAddressType = 0\<rparr>,
                 conn_phy = BR_EDR, conn_encrypted = False\<rparr>)],
         pending_connections = [], pending_capacity = 4\<rparr>,
      security_manager =
        \<lparr>key_store = [], authenticating = True, authentication_address = peer_B,
         authentication_handle = 1, local_io_capability = None, peer_io_capability = None\<rparr>,
      advertisers = [blank_advertiser, blank_advertiser, blank_advertiser],
      le_connect_list = [], le_resolving_list = [],
      schedule_task = True, scheduled = [],
      sent_events = [], sent_acl = [], sent_to_remote = []\<rparr>"

text \<open>
  The same controller with a random own-address type for advertising, its LE address
  still the unset default; and with advertising intervals of 16 units, that is 10 ms.
\<close>

definition random_unset_controller :: LinkLayerController where
  "random_unset_controller =
     example_controller
       \<lparr>properties :=
          example_properties\<lparr>GetLeAdvertisingOwnAddressType := RANDOM_DEVICE_ADDRESS\<rparr>\<rparr>"

definition short_interval_controller :: LinkLayerController where
  "short_interval_controller =
     example_controller
       \<lparr>properties :=
          example_properties
            \<lparr>GetLeAdvertisingIntervalMin := 0x10, GetLeAdvertisingIntervalMax := 0x10\<rparr>\<rparr>"

section \<open>Properties of the connect list and the resolving list\<close>

lemma connect_list_has_iff: "connect_list_has t l \<longleftrightarrow> t \<in> set l"
  by (induction l) auto

lemma contains_loop_iff: "contains_loop i t l \<longleftrightarrow> t \<in> set (drop i l)"
proof (induction i t l rule: contains_loop.induct)
  case (1 i t l)
  show ?case
  proof (cases "i < length l")
    case True
    then have d: "drop i l = l ! i # drop (Suc i) l"
      by (simp add: Cons_nth_drop_Suc)
    show ?thesis
    proof (cases "l ! i = t")
      case eq: True
      then show ?thesis using True d by (subst contains_loop.simps) simp
    next
      case ne: False
      then show ?thesis using True d 1[OF True ne] by (subst contains_loop.simps) auto
    qed
  next
    case False
    then show ?thesis by (subst contains_loop.simps) simp
  qed
qed

lemma distinct_erase_at: "distinct l \<Longrightarrow> distinct (erase_at i l)"
proof -
  assume d: "distinct l"
  have "distinct (take i l @ drop i l)" using d by simp
  then have a: "set (take i l) \<inter> set (drop i l) = {}"
    by (simp only: distinct_append)
  have "drop (Suc i) l = drop 1 (drop i l)" by simp
  then have b: "set (drop (Suc i) l) \<subseteq> set (drop i l)"
    by (metis set_drop_subset)
  have c: "distinct (drop (Suc i) l)" "distinct (take i l)" using d by simp_all
  from a b c show "distinct (erase_at i l)"
    unfolding erase_at_def by (simp only: distinct_append) blast
qed

lemma distinct_remove_loop: "distinct l \<Longrightarrow> distinct (remove_loop i t l)"
proof (induction i t l rule: remove_loop.induct)
  case (1 i t l)
  show ?case
  proof (cases "i < length l")
    case True
    show ?thesis
    proof (cases "l ! i = t")
      case eq: True
      have "distinct (remove_loop (Suc i) t (erase_at i l))"
        using 1(1)[OF True eq] 1(3) by (simp add: distinct_erase_at)
      then show ?thesis using True eq by (subst remove_loop.simps) simp
    next
      case ne: False
      have "distinct (remove_loop (Suc i) t l)"
        using 1(2)[OF True ne] 1(3) by simp
      then show ?thesis using True ne by (subst remove_loop.simps) simp
    qed
  next
    case False
    then show ?thesis using 1(3) by (subst remove_loop.simps) simp
  qed
qed

lemma reachable_distinct: "connect_list_reachable s \<Longrightarrow> distinct (le_connect_list s)"
proof (induction rule: connect_list_reachable.induct)
  case (initial s)
  then show ?case by simp
next
  case (clear s)
  then show ?case by (simp add: LeConnectListClear_def)
next
  case (add s addr addr_type)
  then show ?case by (simp add: LeConnectListAddDevice_def Let_def connect_list_has_iff)
next
  case (remove s addr addr_type)
  then show ?case by (simp add: LeConnectListRemoveDevice_def distinct_remove_loop)
next
  case (other s s')
  then show ?case by simp
qed

text \<open>
  C9. In every state the controller can reach, the LE connect list holds no pair of
  address and address type twice; \<open>LeConnectListAddDevice\<close> on a pair that is in the
  list returns the state as it was; and after \<open>LeConnectListAddDevice\<close>, whether the
  pair was there or not, \<open>LeConnectListContainsDevice\<close> is true for it.
\<close>

theorem connect_list_no_duplicates:
  "connect_list_reachable s \<Longrightarrow>
     distinct (le_connect_list s) \<and>
     ((addr, addr_type) \<in> set (le_connect_list s) \<longrightarrow>
        LeConnectListAddDevice addr addr_type s = s) \<and>
     LeConnectListContainsDevice addr addr_type (LeConnectListAddDevice addr addr_type s)"
proof (intro conjI impI)
  assume "connect_list_reachable s"
  then show "distinct (le_connect_list s)"
    by (rule reachable_distinct)
next
  assume "(addr, addr_type) \<in> set (le_connect_list s)"
  then show "LeConnectListAddDevice addr addr_type s = s"
    by (simp add: LeConnectListAddDevice_def connect_list_has_iff)
next
  show "LeConnectListContainsDevice addr addr_type (LeConnectListAddDevice addr addr_type s)"
    by (simp add: LeConnectListContainsDevice_def LeConnectListAddDevice_def Let_def
        connect_list_has_iff contains_loop_iff)
qed

theorem connect_list_no_duplicates_witness:
  "connect_list_reachable (LeConnectListAddDevice peer_B 0 example_controller) \<and>
   (peer_B, 0) \<in> set (le_connect_list (LeConnectListAddDevice peer_B 0 example_controller)) \<and>
   distinct (le_connect_list (LeConnectListAddDevice peer_B 0 example_controller)) \<and>
   LeConnectListAddDevice peer_B 0 (LeConnectListAddDevice peer_B 0 example_controller)
     = LeConnectListAddDevice peer_B 0 example_controller \<and>
   LeConnectListContainsDevice peer_B 0
     (LeConnectListAddDevice peer_B 0 (LeConnectListAddDevice peer_B 0 example_controller))"
proof -
  have "le_connect_list example_controller = []"
    by (simp add: example_controller_def)
  then have r: "connect_list_reachable (LeConnectListAddDevice peer_B 0 example_controller)"
    by (intro connect_list_reachable.add connect_list_reachable.initial)
  have m: "(peer_B, 0) \<in> set (le_connect_list (LeConnectListAddDevice peer_B 0 example_controller))"
    by (simp add: LeConnectListAddDevice_def example_controller_def)
  show ?thesis
    using r m connect_list_no_duplicates [OF r, of peer_B 0] by blast
qed

text \<open>
  C2. \<open>LeResolvingListRemoveDevice\<close> run on the code: a device is added to the resolving
  list of a controller whose connect list is empty, and is then removed by the same
  address and type. The loop runs over the connect list, finds nothing to erase, and the
  entry is still in the resolving list.
\<close>

theorem LeResolvingListRemoveDevice_keeps_entry:
  "LeResolvingListAddDevice peer_B 0 1 2 example_controller
     = Some (example_controller\<lparr>le_resolving_list := [(peer_B, 0, 1, 2)]\<rparr>) \<and>
   LeResolvingListRemoveDevice peer_B 0
       (example_controller\<lparr>le_resolving_list := [(peer_B, 0, 1, 2)]\<rparr>)
     = Some (example_controller\<lparr>le_resolving_list := [(peer_B, 0, 1, 2)]\<rparr>)"
  by (simp add: LeResolvingListAddDevice_def LeResolvingListRemoveDevice_def
      example_controller_def resolving_add_loop.simps resolving_remove_loop.simps)

section \<open>Properties of the handlers and commands\<close>

lemma SendLinkLayerPacket_eq:
  "SendLinkLayerPacket packet s =
     Some (if schedule_task s
           then s\<lparr>scheduled := scheduled s @ [(50, Call_send_to_remote packet BR_EDR)]\<rparr>
           else s\<lparr>sent_to_remote := sent_to_remote s @ [(packet, BR_EDR)]\<rparr>)"
  by (simp add: SendLinkLayerPacket_def ScheduleTask_def send_to_remote_def)

text \<open>
  C1. \<open>IncomingReadRemoteVersion\<close> run on the code, for every packet and state: the one
  packet it sends back to the requester, through the scheduler with a delay of 50 ms or
  at once when none is registered, is a \<open>ReadRemoteSupportedFeaturesResponse\<close> with the
  supported features of the device. It is not a \<open>ReadRemoteVersionInformationResponse\<close>
  and carries no version information.
\<close>

theorem IncomingReadRemoteVersion_reply:
  "IncomingReadRemoteVersion packet s =
     Some (if schedule_task s
           then s\<lparr>scheduled := scheduled s @
                    [(50, Call_send_to_remote
                            \<lparr>GetSourceAddress = GetDestinationAddress packet,
                             GetDestinationAddress = GetSourceAddress packet,
                             GetBody = ReadRemoteSupportedFeaturesResponse
                                         (GetSupportedFeatures (properties s))\<rparr> BR_EDR)]\<rparr>
           else s\<lparr>sent_to_remote := sent_to_remote s @
                    [(\<lparr>GetSourceAddress = GetDestinationAddress packet,
                       GetDestinationAddress = GetSourceAddress packet,
                       GetBody = ReadRemoteSupportedFeaturesResponse
                                   (GetSupportedFeatures (properties s))\<rparr>, BR_EDR)]\<rparr>)"
  by (simp add: IncomingReadRemoteVersion_def SendLinkLayerPacket_eq)

text \<open>
  C3. \<open>LinkKeyRequestReply\<close> and \<open>IoCapabilityRequestReply\<close> run on the code, while the
  authentication address is \<open>0a:0b:0c:0d:0e:0f\<close> and the peer given is another address:
  both return \<open>SUCCESS\<close>. The first has stored the key for that peer and scheduled
  stage 2 for it; the second has recorded the local IO capabilities and sent an
  \<open>IoCapabilityRequest\<close> to it.
\<close>

theorem replies_without_address_check:
  "GetAuthenticationAddress (security_manager example_controller) = peer_B \<and>
   peer_C \<noteq> peer_B \<and>
   LinkKeyRequestReply peer_C 7 example_controller
     = Some (SUCCESS,
         example_controller
           \<lparr>security_manager :=
              (security_manager example_controller)
                \<lparr>key_store := [(peer_C, 7)], authenticating := False\<rparr>,
            scheduled := [(5, Call_AuthenticateRemoteStage2 peer_C)]\<rparr>) \<and>
   IoCapabilityRequestReply (\<lambda>l p. AUTO_CONFIRMATION) peer_C 1 0 0 example_controller
     = Some (SUCCESS,
         example_controller
           \<lparr>security_manager :=
              (security_manager example_controller)\<lparr>local_io_capability := Some (1, 0, 0)\<rparr>,
            scheduled :=
              [(50, Call_send_to_remote
                      \<lparr>GetSourceAddress = 0x010203040506, GetDestinationAddress = peer_C,
                       GetBody = IoCapabilityRequest 1 0 0\<rparr> BR_EDR)]\<rparr>)"
  by (simp add: LinkKeyRequestReply_def IoCapabilityRequestReply_def example_controller_def
      example_properties_def peer_B_def peer_C_def GetAuthenticationAddress_def WriteKey_def
      AuthenticationRequestFinished_def ScheduleTask_def SetLocalIoCapability_def
      GetSimplePairingType_def SendLinkLayerPacket_eq)

lemma HasHandle_GetAddressOf:
  "HasHandle handle t \<Longrightarrow> \<exists>remote. GetAddressOf handle t = Some remote"
  by (auto simp: HasHandle_def GetAddressOf_def)

lemma ReadKey_GetKey: "ReadKey peer m \<noteq> 0 \<Longrightarrow> \<exists>key. GetKey peer m = Some key"
  by (auto simp: ReadKey_def GetKey_def split: option.splits)

lemma HandleSetConnectionEncryption_returns:
  "ReadKey peer (security_manager s) \<noteq> 0 \<Longrightarrow>
   \<exists>s'. HandleSetConnectionEncryption peer handle encryption_enable s = Some s'"
  using ReadKey_GetKey [of peer "security_manager s"]
  by (auto simp: HandleSetConnectionEncryption_def SendLinkLayerPacket_eq)

text \<open>
  C4. \<open>SetConnectionEncryption\<close> checks in this order. A handle that is not live gives
  \<open>UNKNOWN_CONNECTION\<close>. A live handle whose connection is encrypted, with enable 0,
  gives \<open>ENCRYPTION_MODE_NOT_ACCEPTABLE\<close>. Otherwise, when no link key is stored for
  the peer of the connection, the result is \<open>PIN_OR_KEY_MISSING\<close>. In these three cases
  the state is unchanged. Otherwise the result is \<open>SUCCESS\<close>, and
  \<open>HandleSetConnectionEncryption\<close> for the peer, the handle and the enable value is
  handed to the scheduler with a delay of 5 ms and nothing else changes; when no
  scheduler is registered it runs at once and returns. A live handle always has a peer.
\<close>

theorem SetConnectionEncryption_status:
  "(\<not> HasHandle handle (connections s) \<longrightarrow>
      SetConnectionEncryption handle encryption_enable s = Some (UNKNOWN_CONNECTION, s)) \<and>
   (HasHandle handle (connections s) \<longrightarrow>
      (\<exists>remote. GetAddressOf handle (connections s) = Some remote)) \<and>
   (HasHandle handle (connections s) \<and> IsEncrypted handle (connections s)
      \<and> encryption_enable = 0 \<longrightarrow>
      SetConnectionEncryption handle encryption_enable s
        = Some (ENCRYPTION_MODE_NOT_ACCEPTABLE, s)) \<and>
   (HasHandle handle (connections s)
      \<and> \<not> (IsEncrypted handle (connections s) \<and> encryption_enable = 0)
      \<and> GetAddressOf handle (connections s) = Some remote
      \<and> ReadKey (GetAddress remote) (security_manager s) = 0 \<longrightarrow>
      SetConnectionEncryption handle encryption_enable s = Some (PIN_OR_KEY_MISSING, s)) \<and>
   (HasHandle handle (connections s)
      \<and> \<not> (IsEncrypted handle (connections s) \<and> encryption_enable = 0)
      \<and> GetAddressOf handle (connections s) = Some remote
      \<and> ReadKey (GetAddress remote) (security_manager s) \<noteq> 0
      \<and> schedule_task s \<longrightarrow>
      SetConnectionEncryption handle encryption_enable s
        = Some (SUCCESS,
            s\<lparr>scheduled := scheduled s @
                 [(5, Call_HandleSetConnectionEncryption (GetAddress remote) handle
                        encryption_enable)]\<rparr>)) \<and>
   (HasHandle handle (connections s)
      \<and> \<not> (IsEncrypted handle (connections s) \<and> encryption_enable = 0)
      \<and> GetAddressOf handle (connections s) = Some remote
      \<and> ReadKey (GetAddress remote) (security_manager s) \<noteq> 0
      \<and> \<not> schedule_task s \<longrightarrow>
      (\<exists>s'. HandleSetConnectionEncryption (GetAddress remote) handle encryption_enable s
               = Some s'
            \<and> SetConnectionEncryption handle encryption_enable s = Some (SUCCESS, s')))"
proof (intro conjI impI)
  assume "\<not> HasHandle handle (connections s)"
  then show "SetConnectionEncryption handle encryption_enable s = Some (UNKNOWN_CONNECTION, s)"
    by (simp add: SetConnectionEncryption_def)
next
  assume "HasHandle handle (connections s)"
  then show "\<exists>remote. GetAddressOf handle (connections s) = Some remote"
    by (rule HasHandle_GetAddressOf)
next
  assume "HasHandle handle (connections s) \<and> IsEncrypted handle (connections s)
            \<and> encryption_enable = 0"
  then show "SetConnectionEncryption handle encryption_enable s
               = Some (ENCRYPTION_MODE_NOT_ACCEPTABLE, s)"
    by (simp add: SetConnectionEncryption_def)
next
  assume "HasHandle handle (connections s)
            \<and> \<not> (IsEncrypted handle (connections s) \<and> encryption_enable = 0)
            \<and> GetAddressOf handle (connections s) = Some remote
            \<and> ReadKey (GetAddress remote) (security_manager s) = 0"
  then show "SetConnectionEncryption handle encryption_enable s = Some (PIN_OR_KEY_MISSING, s)"
    by (simp add: SetConnectionEncryption_def)
next
  assume "HasHandle handle (connections s)
            \<and> \<not> (IsEncrypted handle (connections s) \<and> encryption_enable = 0)
            \<and> GetAddressOf handle (connections s) = Some remote
            \<and> ReadKey (GetAddress remote) (security_manager s) \<noteq> 0
            \<and> schedule_task s"
  then show "SetConnectionEncryption handle encryption_enable s
        = Some (SUCCESS,
            s\<lparr>scheduled := scheduled s @
                 [(5, Call_HandleSetConnectionEncryption (GetAddress remote) handle
                        encryption_enable)]\<rparr>)"
    by (simp add: SetConnectionEncryption_def ScheduleTask_def)
next
  assume a: "HasHandle handle (connections s)
            \<and> \<not> (IsEncrypted handle (connections s) \<and> encryption_enable = 0)
            \<and> GetAddressOf handle (connections s) = Some remote
            \<and> ReadKey (GetAddress remote) (security_manager s) \<noteq> 0
            \<and> \<not> schedule_task s"
  then obtain s' where
    h: "HandleSetConnectionEncryption (GetAddress remote) handle encryption_enable s = Some s'"
    using HandleSetConnectionEncryption_returns by blast
  have "SetConnectionEncryption handle encryption_enable s = Some (SUCCESS, s')"
    using a h by (simp add: SetConnectionEncryption_def ScheduleTask_def)
  with h show "\<exists>s'. HandleSetConnectionEncryption (GetAddress remote) handle encryption_enable s
               = Some s'
            \<and> SetConnectionEncryption handle encryption_enable s = Some (SUCCESS, s')"
    by blast
qed

theorem SetConnectionEncryption_status_witness:
  "\<not> HasHandle 2 (connections example_controller) \<and>
   SetConnectionEncryption 2 1 example_controller = Some (UNKNOWN_CONNECTION, example_controller) \<and>
   HasHandle 1 (connections example_controller) \<and>
   GetAddressOf 1 (connections example_controller)
     = Some \<lparr>GetAddress = peer_B, GetAddressType = 0\<rparr> \<and>
   IsEncrypted 1 (Encrypt 1 (connections example_controller)) \<and>
   SetConnectionEncryption 1 0
       (example_controller\<lparr>connections := Encrypt 1 (connections example_controller)\<rparr>)
     = Some (ENCRYPTION_MODE_NOT_ACCEPTABLE,
         example_controller\<lparr>connections := Encrypt 1 (connections example_controller)\<rparr>) \<and>
   ReadKey peer_B (security_manager example_controller) = 0 \<and>
   SetConnectionEncryption 1 1 example_controller = Some (PIN_OR_KEY_MISSING, example_controller) \<and>
   ReadKey peer_B (WriteKey peer_B 7 (security_manager example_controller)) \<noteq> 0 \<and>
   SetConnectionEncryption 1 1
       (example_controller
          \<lparr>security_manager := WriteKey peer_B 7 (security_manager example_controller)\<rparr>)
     = Some (SUCCESS,
         example_controller
           \<lparr>security_manager := WriteKey peer_B 7 (security_manager example_controller),
            scheduled := [(5, Call_HandleSetConnectionEncryption peer_B 1 1)]\<rparr>) \<and>
   (\<exists>s'. SetConnectionEncryption 1 1
            (example_controller
               \<lparr>security_manager := WriteKey peer_B 7 (security_manager example_controller),
                schedule_task := False\<rparr>)
          = Some (SUCCESS, s'))"
proof -
  let ?enc = "example_controller\<lparr>connections := Encrypt 1 (connections example_controller)\<rparr>"
  let ?key = "example_controller
                \<lparr>security_manager := WriteKey peer_B 7 (security_manager example_controller)\<rparr>"
  let ?now = "example_controller
                \<lparr>security_manager := WriteKey peer_B 7 (security_manager example_controller),
                 schedule_task := False\<rparr>"
  let ?remote = "\<lparr>GetAddress = peer_B, GetAddressType = 0\<rparr>"
  have h2: "\<not> HasHandle 2 (connections example_controller)"
    by (simp add: HasHandle_def example_controller_def)
  have h1: "HasHandle 1 (connections example_controller)" "HasHandle 1 (connections ?enc)"
    "HasHandle 1 (connections ?key)" "HasHandle 1 (connections ?now)"
    by (simp_all add: HasHandle_def example_controller_def Encrypt_def)
  have g: "GetAddressOf 1 (connections example_controller) = Some ?remote"
    "GetAddressOf 1 (connections ?key) = Some ?remote"
    "GetAddressOf 1 (connections ?now) = Some ?remote"
    by (simp_all add: GetAddressOf_def example_controller_def)
  have e: "IsEncrypted 1 (connections ?enc)" "\<not> IsEncrypted 1 (connections example_controller)"
    "\<not> IsEncrypted 1 (connections ?key)" "\<not> IsEncrypted 1 (connections ?now)"
    by (simp_all add: IsEncrypted_def Encrypt_def example_controller_def)
  have k: "ReadKey (GetAddress ?remote) (security_manager example_controller) = 0"
    "ReadKey (GetAddress ?remote) (security_manager ?key) \<noteq> 0"
    "ReadKey (GetAddress ?remote) (security_manager ?now) \<noteq> 0"
    by (simp_all add: ReadKey_def WriteKey_def example_controller_def)
  have t: "schedule_task ?key" "\<not> schedule_task ?now" "scheduled ?key = []"
    by (simp_all add: example_controller_def)
  have c1: "SetConnectionEncryption 2 1 example_controller
              = Some (UNKNOWN_CONNECTION, example_controller)"
    using SetConnectionEncryption_status [of 2 example_controller 1 ?remote] h2 by blast
  have c2: "SetConnectionEncryption 1 0 ?enc = Some (ENCRYPTION_MODE_NOT_ACCEPTABLE, ?enc)"
    using SetConnectionEncryption_status [of 1 ?enc 0 ?remote] h1 e by blast
  have c3: "SetConnectionEncryption 1 1 example_controller
              = Some (PIN_OR_KEY_MISSING, example_controller)"
    using SetConnectionEncryption_status [of 1 example_controller 1 ?remote] h1 e g k by blast
  have c4: "SetConnectionEncryption 1 1 ?key
              = Some (SUCCESS, ?key\<lparr>scheduled := scheduled ?key @
                   [(5, Call_HandleSetConnectionEncryption (GetAddress ?remote) 1 1)]\<rparr>)"
    using SetConnectionEncryption_status [of 1 ?key 1 ?remote] h1 e g k t by blast
  have c5: "\<exists>s'. SetConnectionEncryption 1 1 ?now = Some (SUCCESS, s')"
    using SetConnectionEncryption_status [of 1 ?now 1 ?remote] h1 e g k t by blast
  show ?thesis
    using h2 h1 g e k c1 c2 c3 c4 c5 t by simp
qed

lemma find_Some_mem: "find P l = Some e \<Longrightarrow> e \<in> set l \<and> P e"
  by (induction l) (auto split: if_splits)

lemma GetHandleOnlyAddress_live:
  "GetHandleOnlyAddress addr t \<noteq> kReservedHandle \<Longrightarrow> HasHandle (GetHandleOnlyAddress addr t) t"
proof -
  assume a: "GetHandleOnlyAddress addr t \<noteq> kReservedHandle"
  then obtain e where
    f: "find (\<lambda>e. GetAddress (conn_address (snd e)) = addr) (acl_connections t) = Some e"
    by (auto simp: GetHandleOnlyAddress_def split: option.splits)
  then have "e \<in> set (acl_connections t)"
    using find_Some_mem by fastforce
  then have "fst e \<in> fst ` set (acl_connections t)"
    by (rule imageI)
  then have "map_of (acl_connections t) (fst e) \<noteq> None"
    by (simp add: map_of_eq_None_iff)
  then show ?thesis
    using f by (simp add: GetHandleOnlyAddress_def HasHandle_def)
qed

lemma map_of_encrypt:
  "map_of (map (\<lambda>e. if fst e = handle then (fst e, (snd e)\<lparr>conn_encrypted := True\<rparr>) else e) l) handle
     = map_option (\<lambda>c. c\<lparr>conn_encrypted := True\<rparr>) (map_of l handle)"
  by (induction l) auto

lemma IsEncrypted_Encrypt: "HasHandle handle t \<Longrightarrow> IsEncrypted handle (Encrypt handle t)"
  by (auto simp: HasHandle_def IsEncrypted_def Encrypt_def map_of_encrypt)

text \<open>
  C5. For an \<open>LeEncryptConnectionResponse\<close> from a peer with a connection, that is, whose
  source address has a handle other than the reserved one, the handler returns, and the
  status it reports is \<open>AUTHENTICATION_FAILURE\<close> when the LTK carried is all zeros and
  \<open>SUCCESS\<close> otherwise. If the connection is encrypted already, the one change is an
  \<open>EncryptionKeyRefreshComplete\<close> event with that status and the handle, so the
  connection table and its encryption flag stay as they were. Otherwise the connection is
  marked encrypted and the event is \<open>EncryptionChange\<close> with that status, the handle and
  \<open>ON\<close>.
\<close>

theorem IncomingLeEncryptConnectionResponse_effect:
  "GetBody incoming = LeEncryptConnectionResponse rand ediv ltk \<Longrightarrow>
   GetHandleOnlyAddress (GetSourceAddress incoming) (connections s) = handle \<Longrightarrow>
   handle \<noteq> kReservedHandle \<Longrightarrow>
   (\<exists>status s'.
      IncomingLeEncryptConnectionResponse incoming s = Some s' \<and>
      (status = AUTHENTICATION_FAILURE \<longleftrightarrow> ltk = 0) \<and>
      (status = SUCCESS \<longleftrightarrow> ltk \<noteq> 0) \<and>
      (IsEncrypted handle (connections s) \<longrightarrow>
         s' = s\<lparr>sent_events := sent_events s @ [EncryptionKeyRefreshComplete status handle]\<rparr> \<and>
         connections s' = connections s) \<and>
      (\<not> IsEncrypted handle (connections s) \<longrightarrow>
         s' = s\<lparr>connections := Encrypt handle (connections s),
                sent_events := sent_events s @ [EncryptionChange status handle ON]\<rparr> \<and>
         IsEncrypted handle (connections s')))"
proof -
  assume b: "GetBody incoming = LeEncryptConnectionResponse rand ediv ltk"
    and h: "GetHandleOnlyAddress (GetSourceAddress incoming) (connections s) = handle"
    and r: "handle \<noteq> kReservedHandle"
  let ?status = "if ltk = 0 then AUTHENTICATION_FAILURE else SUCCESS"
  have live: "HasHandle handle (connections s)"
    using GetHandleOnlyAddress_live [of "GetSourceAddress incoming" "connections s"] h r by simp
  show ?thesis
  proof (cases "IsEncrypted handle (connections s)")
    case True
    have "IncomingLeEncryptConnectionResponse incoming s
            = Some (s\<lparr>sent_events := sent_events s @
                        [EncryptionKeyRefreshComplete ?status handle]\<rparr>)"
      using b h r True
      by (simp add: IncomingLeEncryptConnectionResponse_def Let_def send_event_def)
    with True show ?thesis
      by (intro exI [of _ ?status] exI [of _ "s\<lparr>sent_events := sent_events s @
                        [EncryptionKeyRefreshComplete ?status handle]\<rparr>"]) simp
  next
    case False
    let ?s' = "s\<lparr>connections := Encrypt handle (connections s),
                  sent_events := sent_events s @ [EncryptionChange ?status handle ON]\<rparr>"
    have "IncomingLeEncryptConnectionResponse incoming s = Some ?s'"
      using b h r False
      by (simp add: IncomingLeEncryptConnectionResponse_def Let_def send_event_def)
    moreover have "IsEncrypted handle (connections ?s')"
      using live by (simp add: IsEncrypted_Encrypt)
    ultimately show ?thesis
      using False by (intro exI [of _ ?status] exI [of _ ?s']) simp
  qed
qed

theorem IncomingLeEncryptConnectionResponse_effect_witness:
  "GetHandleOnlyAddress peer_B (connections example_controller) = 1 \<and>
   (1 :: Handle) \<noteq> kReservedHandle \<and>
   \<not> IsEncrypted 1 (connections example_controller) \<and>
   IncomingLeEncryptConnectionResponse
       \<lparr>GetSourceAddress = peer_B, GetDestinationAddress = 0x010203040506,
        GetBody = LeEncryptConnectionResponse 0 0 0\<rparr> example_controller
     = Some (example_controller
               \<lparr>connections := Encrypt 1 (connections example_controller),
                sent_events := [EncryptionChange AUTHENTICATION_FAILURE 1 ON]\<rparr>)"
proof -
  let ?p = "\<lparr>GetSourceAddress = peer_B, GetDestinationAddress = 0x010203040506,
             GetBody = LeEncryptConnectionResponse 0 0 0\<rparr>"
  have b: "GetBody ?p = LeEncryptConnectionResponse 0 0 0"
    by simp
  have h: "GetHandleOnlyAddress (GetSourceAddress ?p) (connections example_controller) = 1"
    by (simp add: GetHandleOnlyAddress_def example_controller_def)
  have r: "(1 :: Handle) \<noteq> kReservedHandle"
    by (simp add: kReservedHandle_def)
  have e: "\<not> IsEncrypted 1 (connections example_controller)"
    by (simp add: IsEncrypted_def example_controller_def)
  have n: "sent_events example_controller = []"
    by (simp add: example_controller_def)
  obtain status s' where
    "IncomingLeEncryptConnectionResponse ?p example_controller = Some s'"
    "status = AUTHENTICATION_FAILURE \<longleftrightarrow> (0 :: Key128) = 0"
    "\<not> IsEncrypted 1 (connections example_controller) \<longrightarrow>
       s' = example_controller
              \<lparr>connections := Encrypt 1 (connections example_controller),
               sent_events := sent_events example_controller @ [EncryptionChange status 1 ON]\<rparr>"
    using IncomingLeEncryptConnectionResponse_effect [OF b h r] by blast
  then show ?thesis
    using h r e n by simp
qed

text \<open>
  C8. Creating the pending connection succeeds unless a pending record for the address
  exists or the table is at capacity. When it fails, \<open>CreateConnection\<close> returns
  \<open>CONTROLLER_BUSY\<close> and the state is unchanged, so no packet is sent. When it succeeds,
  \<open>CreateConnection\<close> returns \<open>SUCCESS\<close>; the pending record for the address carries
  the flag "authentication enable is 1"; and one \<open>Page\<close> packet from the device address
  to the address, with the class of device and the role-switch value, goes out on BR/EDR,
  through the scheduler with a delay of 50 ms or at once when none is registered. Nothing
  else changes.
\<close>

theorem CreateConnection_status:
  "(fst (CreatePendingConnection addr (GetAuthenticationEnable (properties s) = 1)
           (connections s))
      \<longleftrightarrow> \<not> (HasPendingConnection addr (connections s)
               \<or> pending_capacity (connections s) \<le> length (pending_connections (connections s)))) \<and>
   (\<not> fst (CreatePendingConnection addr (GetAuthenticationEnable (properties s) = 1)
             (connections s)) \<longrightarrow>
      CreateConnection addr u1 u2 u3 allow_role_switch s = Some (CONTROLLER_BUSY, s)) \<and>
   (fst (CreatePendingConnection addr (GetAuthenticationEnable (properties s) = 1)
           (connections s)) \<longrightarrow>
      CreateConnection addr u1 u2 u3 allow_role_switch s
        = Some (SUCCESS,
            if schedule_task s
            then s\<lparr>connections :=
                     (connections s)
                       \<lparr>pending_connections :=
                          pending_connections (connections s)
                            @ [(addr, GetAuthenticationEnable (properties s) = 1)]\<rparr>,
                   scheduled := scheduled s @
                     [(50, Call_send_to_remote
                             \<lparr>GetSourceAddress = GetDeviceAddress (properties s),
                              GetDestinationAddress = addr,
                              GetBody = Page (GetClassOfDevice (properties s))
                                          allow_role_switch\<rparr> BR_EDR)]\<rparr>
            else s\<lparr>connections :=
                     (connections s)
                       \<lparr>pending_connections :=
                          pending_connections (connections s)
                            @ [(addr, GetAuthenticationEnable (properties s) = 1)]\<rparr>,
                   sent_to_remote := sent_to_remote s @
                     [(\<lparr>GetSourceAddress = GetDeviceAddress (properties s),
                        GetDestinationAddress = addr,
                        GetBody = Page (GetClassOfDevice (properties s))
                                    allow_role_switch\<rparr>, BR_EDR)]\<rparr>))"
  by (simp add: CreateConnection_def CreatePendingConnection_def SendLinkLayerPacket_eq)

theorem CreateConnection_status_witness:
  "fst (CreatePendingConnection peer_C (GetAuthenticationEnable (properties example_controller) = 1)
          (connections example_controller)) \<and>
   CreateConnection peer_C 0 0 0 1 example_controller
     = Some (SUCCESS,
         example_controller
           \<lparr>connections :=
              (connections example_controller)\<lparr>pending_connections := [(peer_C, True)]\<rparr>,
            scheduled :=
              [(50, Call_send_to_remote
                      \<lparr>GetSourceAddress = 0x010203040506, GetDestinationAddress = peer_C,
                       GetBody = Page 0x1F00 1\<rparr> BR_EDR)]\<rparr>) \<and>
   \<not> fst (CreatePendingConnection peer_C
            (GetAuthenticationEnable (properties example_controller) = 1)
            ((connections example_controller)\<lparr>pending_connections := [(peer_C, True)]\<rparr>)) \<and>
   CreateConnection peer_C 0 0 0 1
       (example_controller
          \<lparr>connections :=
             (connections example_controller)\<lparr>pending_connections := [(peer_C, True)]\<rparr>\<rparr>)
     = Some (CONTROLLER_BUSY,
         example_controller
           \<lparr>connections :=
              (connections example_controller)\<lparr>pending_connections := [(peer_C, True)]\<rparr>\<rparr>)"
proof -
  let ?busy = "example_controller
            \<lparr>connections :=
               (connections example_controller)\<lparr>pending_connections := [(peer_C, True)]\<rparr>\<rparr>"
  have ok: "fst (CreatePendingConnection peer_C
                   (GetAuthenticationEnable (properties example_controller) = 1)
                   (connections example_controller))"
    by (simp add: CreatePendingConnection_def HasPendingConnection_def example_controller_def)
  have no: "\<not> fst (CreatePendingConnection peer_C
                     (GetAuthenticationEnable (properties ?busy) = 1) (connections ?busy))"
    by (simp add: CreatePendingConnection_def HasPendingConnection_def example_controller_def)
  have v: "schedule_task example_controller" "scheduled example_controller = []"
    "pending_connections (connections example_controller) = []"
    "GetAuthenticationEnable (properties example_controller) = 1"
    "GetDeviceAddress (properties example_controller) = 0x010203040506"
    "GetClassOfDevice (properties example_controller) = 0x1F00"
    by (simp_all add: example_controller_def example_properties_def)
  have p: "properties ?busy = properties example_controller"
    by simp
  have c1: "CreateConnection peer_C 0 0 0 1 example_controller
     = Some (SUCCESS,
         example_controller
           \<lparr>connections :=
              (connections example_controller)\<lparr>pending_connections := [(peer_C, True)]\<rparr>,
            scheduled :=
              [(50, Call_send_to_remote
                      \<lparr>GetSourceAddress = 0x010203040506, GetDestinationAddress = peer_C,
                       GetBody = Page 0x1F00 1\<rparr> BR_EDR)]\<rparr>)"
    using CreateConnection_status [of peer_C example_controller 0 0 0 1] ok v by simp
  have c2: "CreateConnection peer_C 0 0 0 1 ?busy = Some (CONTROLLER_BUSY, ?busy)"
    using CreateConnection_status [of peer_C ?busy 0 0 0 1] no by blast
  show ?thesis
    using ok no c1 c2 p by simp
qed

lemma handles_checked_iff:
  "handles_checked enabled_sets n \<longleftrightarrow> (\<forall>es \<in> set enabled_sets. unat (advertising_handle es) \<le> n)"
  by (induction enabled_sets) auto

text \<open>
  C10. \<open>SetLeExtendedAdvertisingEnable\<close> returns \<open>INVALID_HCI_COMMAND_PARAMETERS\<close> when
  some requested advertising handle is greater than the number of advertising sets, and
  only then; and whenever it returns that code the state it leaves is the state it was
  given, so every advertising set is enabled or disabled as before, also those named by
  valid entries ahead of the offending one.
\<close>

theorem SetLeExtendedAdvertisingEnable_invalid:
  "((\<exists>es \<in> set enabled_sets. length (advertisers s) < unat (advertising_handle es)) \<longrightarrow>
      SetLeExtendedAdvertisingEnable enable enabled_sets s
        = Some (INVALID_HCI_COMMAND_PARAMETERS, s)) \<and>
   (SetLeExtendedAdvertisingEnable enable enabled_sets s
        = Some (INVALID_HCI_COMMAND_PARAMETERS, s') \<longrightarrow>
      s' = s \<and> map IsEnabled (advertisers s') = map IsEnabled (advertisers s) \<and>
      (\<exists>es \<in> set enabled_sets. length (advertisers s) < unat (advertising_handle es)))"
proof -
  have first: "SetLeExtendedAdvertisingEnable enable enabled_sets s
               = Some (INVALID_HCI_COMMAND_PARAMETERS, s)"
    if "\<exists>es \<in> set enabled_sets. length (advertisers s) < unat (advertising_handle es)"
  proof -
    have "\<not> handles_checked enabled_sets (length (advertisers s))"
      using that by (simp add: handles_checked_iff not_le)
    then show ?thesis
      by (simp add: SetLeExtendedAdvertisingEnable_def)
  qed
  have second: "s' = s \<and> map IsEnabled (advertisers s') = map IsEnabled (advertisers s) \<and>
      (\<exists>es \<in> set enabled_sets. length (advertisers s) < unat (advertising_handle es))"
    if r: "SetLeExtendedAdvertisingEnable enable enabled_sets s
               = Some (INVALID_HCI_COMMAND_PARAMETERS, s')"
  proof -
    have n: "\<not> handles_checked enabled_sets (length (advertisers s))"
    proof
      assume "handles_checked enabled_sets (length (advertisers s))"
      with r show False
        by (auto simp: SetLeExtendedAdvertisingEnable_def split: bind_splits)
    qed
    with r have "s' = s"
      by (simp add: SetLeExtendedAdvertisingEnable_def)
    moreover have "\<exists>es \<in> set enabled_sets. length (advertisers s) < unat (advertising_handle es)"
      using n by (auto simp: handles_checked_iff not_le)
    ultimately show ?thesis
      by simp
  qed
  show ?thesis
    using first second by blast
qed

theorem SetLeExtendedAdvertisingEnable_invalid_witness:
  "(\<exists>es \<in> set [\<lparr>advertising_handle = 0, duration = 0, max_extended_advertising_events = 0\<rparr>,
                \<lparr>advertising_handle = 9, duration = 0, max_extended_advertising_events = 0\<rparr>].
      length (advertisers example_controller) < unat (advertising_handle es)) \<and>
   SetLeExtendedAdvertisingEnable ENABLED
       [\<lparr>advertising_handle = 0, duration = 0, max_extended_advertising_events = 0\<rparr>,
        \<lparr>advertising_handle = 9, duration = 0, max_extended_advertising_events = 0\<rparr>]
       example_controller
     = Some (INVALID_HCI_COMMAND_PARAMETERS, example_controller) \<and>
   map IsEnabled (advertisers example_controller) = [False, False, False]"
proof -
  let ?sets = "[\<lparr>advertising_handle = 0, duration = 0, max_extended_advertising_events = 0\<rparr>,
                \<lparr>advertising_handle = 9, duration = 0, max_extended_advertising_events = 0\<rparr>]"
  have h: "\<exists>es \<in> set ?sets. length (advertisers example_controller) < unat (advertising_handle es)"
    by (simp add: example_controller_def)
  have e: "map IsEnabled (advertisers example_controller) = [False, False, False]"
    by (simp add: example_controller_def blank_advertiser_def IsEnabled_def)
  have "SetLeExtendedAdvertisingEnable ENABLED ?sets example_controller
          = Some (INVALID_HCI_COMMAND_PARAMETERS, example_controller)"
    using SetLeExtendedAdvertisingEnable_invalid [of ?sets example_controller ENABLED] h
    by blast
  with h e show ?thesis
    by blast
qed






lemma interval_below_20: "(nat \<lfloor>x :: real\<rfloor> < 20) = (x < 20)"
proof -
  have "(nat \<lfloor>x\<rfloor> < 20) = (\<lfloor>x\<rfloor> < 20)"
    by linarith
  also have "\<dots> = (x < 20)"
    by (simp add: floor_less_iff)
  finally show ?thesis .
qed

lemma interval_floor:
  "nat \<lfloor>real n * 0.625 / 2\<rfloor> = n * 5 div 16"
proof -
  have "real n * 0.625 / 2 = real (n * 5) / real 16"
    by simp
  then have "\<lfloor>real n * 0.625 / 2\<rfloor> = int (n * 5 div 16)"
    by (simp only: floor_divide_of_nat_eq)
  then show ?thesis
    by simp
qed

lemma ToString_unset: "ToString 0xBBBBBBBAD01E = ''bb:bb:bb:ba:d0:1e''"
  by (simp add: ToString_def octet_text_def hex_digit_def)

lemma initialize_and_enable:
  "advertisers s \<noteq> [] \<Longrightarrow>
   (on_advertiser 0 f s \<bind> (\<lambda>s1. on_advertiser 0 g s1 \<bind> (\<lambda>s2. Some (SUCCESS, s2))))
     = Some (SUCCESS, s\<lparr>advertisers := (advertisers s)[0 := g (f (advertisers s ! 0))]\<rparr>)"
  by (simp add: on_advertiser_def)

text \<open>
  C6, as amended. With a non-zero argument, \<open>SetLeAdvertisingEnable\<close> returns
  \<open>INVALID_HCI_COMMAND_PARAMETERS\<close>, and changes nothing, when the own-address type is
  random (device or identity) and the LE address is either the empty address or the unset
  default \<open>bb:bb:bb:ba:d0:1e\<close>, and also when the interval \<open>(max + min) * 0.625 / 2\<close> ms
  is below 20 ms. In every other case it returns \<open>SUCCESS\<close>, and the one change is to
  advertiser 0: it is initialised from the device properties, with the LE address as own
  address when the type is random and the public address otherwise and with the interval
  in whole milliseconds, and it is enabled.
\<close>

theorem SetLeAdvertisingEnable_outcome:
  assumes "le_advertising_enable \<noteq> 0"
    and "p = properties s"
    and "random \<longleftrightarrow> GetLeAdvertisingOwnAddressType p = RANDOM_DEVICE_ADDRESS
                     \<or> GetLeAdvertisingOwnAddressType p = RANDOM_IDENTITY_ADDRESS"
    and "unset \<longleftrightarrow> GetLeAddress p = kEmpty \<or> ToString (GetLeAddress p) = ''bb:bb:bb:ba:d0:1e''"
    and "interval_ms = real (unat (GetLeAdvertisingIntervalMax p)
                              + unat (GetLeAdvertisingIntervalMin p)) * 0.625 / 2"
  shows
    "((random \<and> unset) \<or> interval_ms < 20 \<longrightarrow>
        SetLeAdvertisingEnable le_advertising_enable s
          = Some (INVALID_HCI_COMMAND_PARAMETERS, s)) \<and>
     (\<not> (random \<and> unset) \<and> \<not> interval_ms < 20 \<and> advertisers s \<noteq> [] \<longrightarrow>
        SetLeAdvertisingEnable le_advertising_enable s
          = Some (SUCCESS,
              s\<lparr>advertisers := (advertisers s)
                   [0 := Enable_adv
                      (Initialize
                         \<lparr>GetAddress = (if random then GetLeAddress p else GetDeviceAddress p),
                          GetAddressType = GetLeAdvertisingOwnAddressType p\<rparr>
                         \<lparr>GetAddress = GetLeAdvertisingPeerAddress p,
                          GetAddressType = GetLeAdvertisingPeerAddressType p\<rparr>
                         (GetLeAdvertisingFilterPolicy p) (GetLeAdvertisementType p)
                         (GetLeAdvertisement p) (GetLeScanResponse p) (nat \<lfloor>interval_ms\<rfloor>)
                         (advertisers s ! 0))]\<rparr>))"
proof -
  have e: "le_advertising_enable \<noteq> 0"
    by fact
  show ?thesis
    unfolding assms(3,4,5) unfolding assms(2)
    using e
    by (simp add: SetLeAdvertisingEnable_def Let_def interval_below_20 initialize_and_enable
        RANDOM_DEVICE_ADDRESS_def RANDOM_IDENTITY_ADDRESS_def)
qed

theorem SetLeAdvertisingEnable_outcome_witness:
  "(1 :: 8 word) \<noteq> 0 \<and>
   GetLeAdvertisingOwnAddressType (properties random_unset_controller) = RANDOM_DEVICE_ADDRESS \<and>
   ToString (GetLeAddress (properties random_unset_controller)) = ''bb:bb:bb:ba:d0:1e'' \<and>
   SetLeAdvertisingEnable 1 random_unset_controller
     = Some (INVALID_HCI_COMMAND_PARAMETERS, random_unset_controller) \<and>
   real (unat (GetLeAdvertisingIntervalMax (properties short_interval_controller))
         + unat (GetLeAdvertisingIntervalMin (properties short_interval_controller)))
     * 0.625 / 2 < 20 \<and>
   SetLeAdvertisingEnable 1 short_interval_controller
     = Some (INVALID_HCI_COMMAND_PARAMETERS, short_interval_controller) \<and>
   advertisers example_controller \<noteq> [] \<and>
   SetLeAdvertisingEnable 1 example_controller
     = Some (SUCCESS,
         example_controller
           \<lparr>advertisers :=
              [\<lparr>adv_enabled = True,
                adv_address = \<lparr>GetAddress = 0x010203040506, GetAddressType = 0\<rparr>,
                adv_peer_address = \<lparr>GetAddress = 0, GetAddressType = 0\<rparr>,
                adv_filter_policy = 0, adv_type = 0, adv_advertisement = [2, 1, 6],
                adv_scan_response = [], adv_interval = 1280, adv_duration = None\<rparr>,
               blank_advertiser, blank_advertiser]\<rparr>)"
proof -
  let ?pr = "properties random_unset_controller"
  let ?ps = "properties short_interval_controller"
  let ?pe = "properties example_controller"
  have one: "(1 :: 8 word) \<noteq> 0"
    by simp
  have r1: "True \<longleftrightarrow> GetLeAdvertisingOwnAddressType ?pr = RANDOM_DEVICE_ADDRESS
                       \<or> GetLeAdvertisingOwnAddressType ?pr = RANDOM_IDENTITY_ADDRESS"
    and r2: "True \<longleftrightarrow> GetLeAddress ?pr = kEmpty
                       \<or> ToString (GetLeAddress ?pr) = ''bb:bb:bb:ba:d0:1e''"
    and r3: "1280 = real (unat (GetLeAdvertisingIntervalMax ?pr)
                          + unat (GetLeAdvertisingIntervalMin ?pr)) * 0.625 / 2"
    and r4: "GetLeAdvertisingOwnAddressType ?pr = RANDOM_DEVICE_ADDRESS"
    and r5: "ToString (GetLeAddress ?pr) = ''bb:bb:bb:ba:d0:1e''"
    by (simp_all add: random_unset_controller_def example_properties_def ToString_unset)
  have s1: "False \<longleftrightarrow> GetLeAdvertisingOwnAddressType ?ps = RANDOM_DEVICE_ADDRESS
                        \<or> GetLeAdvertisingOwnAddressType ?ps = RANDOM_IDENTITY_ADDRESS"
    and s2: "True \<longleftrightarrow> GetLeAddress ?ps = kEmpty
                       \<or> ToString (GetLeAddress ?ps) = ''bb:bb:bb:ba:d0:1e''"
    and s3: "10 = real (unat (GetLeAdvertisingIntervalMax ?ps)
                        + unat (GetLeAdvertisingIntervalMin ?ps)) * 0.625 / 2"
    by (simp_all add: short_interval_controller_def example_properties_def ToString_unset
        RANDOM_DEVICE_ADDRESS_def RANDOM_IDENTITY_ADDRESS_def)
  have e1: "False \<longleftrightarrow> GetLeAdvertisingOwnAddressType ?pe = RANDOM_DEVICE_ADDRESS
                        \<or> GetLeAdvertisingOwnAddressType ?pe = RANDOM_IDENTITY_ADDRESS"
    and e2: "True \<longleftrightarrow> GetLeAddress ?pe = kEmpty
                       \<or> ToString (GetLeAddress ?pe) = ''bb:bb:bb:ba:d0:1e''"
    and e3: "1280 = real (unat (GetLeAdvertisingIntervalMax ?pe)
                          + unat (GetLeAdvertisingIntervalMin ?pe)) * 0.625 / 2"
    and e4: "advertisers example_controller \<noteq> []"
    by (simp_all add: example_controller_def example_properties_def ToString_unset
        RANDOM_DEVICE_ADDRESS_def RANDOM_IDENTITY_ADDRESS_def)
  have c1: "SetLeAdvertisingEnable 1 random_unset_controller
              = Some (INVALID_HCI_COMMAND_PARAMETERS, random_unset_controller)"
    using SetLeAdvertisingEnable_outcome [OF one refl r1 r2 r3] by blast
  have c2: "SetLeAdvertisingEnable 1 short_interval_controller
              = Some (INVALID_HCI_COMMAND_PARAMETERS, short_interval_controller)"
    using SetLeAdvertisingEnable_outcome [OF one refl s1 s2 s3] by simp
  have c3: "SetLeAdvertisingEnable 1 example_controller
     = Some (SUCCESS,
         example_controller
           \<lparr>advertisers :=
              [\<lparr>adv_enabled = True,
                adv_address = \<lparr>GetAddress = 0x010203040506, GetAddressType = 0\<rparr>,
                adv_peer_address = \<lparr>GetAddress = 0, GetAddressType = 0\<rparr>,
                adv_filter_policy = 0, adv_type = 0, adv_advertisement = [2, 1, 6],
                adv_scan_response = [], adv_interval = 1280, adv_duration = None\<rparr>,
               blank_advertiser, blank_advertiser]\<rparr>)"
    using SetLeAdvertisingEnable_outcome [OF one refl e1 e2 e3] e4
    by (simp add: example_controller_def example_properties_def blank_advertiser_def
        Enable_adv_def Initialize_def)
  show ?thesis
    using one r4 r5 c1 s3 c2 e4 c3 by simp
qed

text \<open>
  C6, as stated, fails where the own-address type is random and the LE address is the
  unset default \<open>bb:bb:bb:ba:d0:1e\<close>: the address is not the empty address and the
  interval is 1280 ms, yet the result is \<open>INVALID_HCI_COMMAND_PARAMETERS\<close> and no
  advertiser is initialised or enabled.
\<close>

theorem SetLeAdvertisingEnable_unset_default_counterexample:
  "GetLeAdvertisingOwnAddressType (properties random_unset_controller) = RANDOM_DEVICE_ADDRESS \<and>
   GetLeAddress (properties random_unset_controller) \<noteq> kEmpty \<and>
   \<not> real (unat (GetLeAdvertisingIntervalMax (properties random_unset_controller))
           + unat (GetLeAdvertisingIntervalMin (properties random_unset_controller)))
       * 0.625 / 2 < 20 \<and>
   advertisers random_unset_controller \<noteq> [] \<and>
   SetLeAdvertisingEnable 1 random_unset_controller
     = Some (INVALID_HCI_COMMAND_PARAMETERS, random_unset_controller)"
  by (simp add: SetLeAdvertisingEnable_def Let_def random_unset_controller_def
      example_controller_def example_properties_def kEmpty_def ToString_unset)

text \<open>
  The seven reply commands that do compare the peer with the authentication address:
  on a mismatch each returns \<open>AUTHENTICATION_FAILURE\<close> and leaves the state as it was.
\<close>

lemma checked_replies_reject:
  "GetAuthenticationAddress (security_manager s) \<noteq> peer \<Longrightarrow>
     IoCapabilityRequestNegativeReply peer reason s = Some (AUTHENTICATION_FAILURE, s) \<and>
     UserConfirmationRequestReply peer s = Some (AUTHENTICATION_FAILURE, s) \<and>
     UserConfirmationRequestNegativeReply peer s = Some (AUTHENTICATION_FAILURE, s) \<and>
     UserPasskeyRequestReply peer numeric_value s = Some (AUTHENTICATION_FAILURE, s) \<and>
     UserPasskeyRequestNegativeReply peer s = Some (AUTHENTICATION_FAILURE, s) \<and>
     RemoteOobDataRequestReply peer c r s = Some (AUTHENTICATION_FAILURE, s) \<and>
     RemoteOobDataRequestNegativeReply peer s = Some (AUTHENTICATION_FAILURE, s)"
  by (simp add: IoCapabilityRequestNegativeReply_def UserConfirmationRequestReply_def
      UserConfirmationRequestNegativeReply_def UserPasskeyRequestReply_def
      UserPasskeyRequestNegativeReply_def RemoteOobDataRequestReply_def
      RemoteOobDataRequestNegativeReply_def)

end
